theory Spec2Isabelle
  imports Complex_Main "HOL-Library.Word"
begin

unbundle bit_operations_syntax

section \<open>JavaScript values shared by both modules\<close>

type_synonym byte = "8 word"

text \<open>
  Exceptions of the two source files: those they throw themselves
  (\<open>IllegalStateException\<close>, \<open>RuntimeException\<close>) and those the language raises
  (a property of \<open>null\<close> is read, a typed-array view or a \<open>DataView\<close> read leaves its
  buffer, an identifier does not resolve).
\<close>

datatype js_error =
    IllegalStateException
  | RuntimeException
  | TypeError
  | RangeError
  | ReferenceError

text \<open>
  \<open>target.set(source, offset)\<close> on a \<open>Uint8Array\<close> view of the first \<open>viewLength\<close>
  bytes of a buffer: \<open>RangeError\<close> (here \<open>None\<close>) unless the source fits in the view at
  that offset; otherwise the bytes of the buffer under the view are overwritten.
\<close>

definition view_ok :: "byte list \<Rightarrow> int \<Rightarrow> bool" where
  "view_ok buffer viewLength \<longleftrightarrow> 0 \<le> viewLength \<and> viewLength \<le> int (length buffer)"

text \<open>
  \<open>buffer.slice(0, end)\<close> of an \<open>ArrayBuffer\<close>: a copy of the bytes before \<open>end\<close>, which
  is counted from the end of the buffer when negative and stops at its length.
\<close>

definition slice_to :: "byte list \<Rightarrow> int \<Rightarrow> byte list" where
  "slice_to buffer e =
     (if e < 0 then take (nat (int (length buffer) + e)) buffer else take (nat e) buffer)"

definition set_bytes :: "byte list \<Rightarrow> int \<Rightarrow> byte list \<Rightarrow> int \<Rightarrow> byte list option" where
  "set_bytes buffer viewLength source offset =
     (if 0 \<le> offset \<and> offset + int (length source) \<le> viewLength
      then Some (take (nat offset) buffer @ source @ drop (nat offset + length source) buffer)
      else None)"

section \<open>io-controller.js: the ingestion controller\<close>

subsection \<open>Data\<close>

text \<open>
  Modelled from the spec: the \<open>LoaderErrors\<close> enumeration of \<open>loader.js\<close>, which is not
  among the sources; section 6 of the specification lists its five kinds.
\<close>

datatype loader_error =
    EARLY_EOF
  | UNRECOVERABLE_EARLY_EOF
  | CONNECTING_TIMEOUT
  | HTTP_STATUS_CODE_INVALID
  | EXCEPTION

record byte_range =
  range_from :: int
  range_to :: int

text \<open>
  What the controller does to its collaborators, in order: calls on the transport loader,
  calls of the consumer callback \<open>_onDataArrival\<close> (data, absolute offset) and calls of
  the listeners.
\<close>

datatype io_event =
    LoaderAbort
  | LoaderDestroy
  | LoaderOpen int int
  | Dispatch "byte list" int
  | Seeked
  | ErrorRaised loader_error int string
  | Completed
  | Redirected string
  | RecoveredEarlyEof

text \<open>
  The transport loader classes (\<open>fetch-stream-loader.js\<close> and the others) are not among
  the sources. The controller only constructs a loader, asks \<open>isWorking()\<close>, reads
  \<open>needStashBuffer\<close> and calls \<open>abort()\<close>, \<open>open()\<close> and \<open>destroy()\<close>; the class is a
  parameter, over a loader state \<open>'l\<close> of its own.
\<close>

record 'l loader_class =
  new_loader :: 'l
  loader_isWorking :: "'l \<Rightarrow> bool"
  loader_abort :: "'l \<Rightarrow> 'l"
  loader_open :: "'l \<Rightarrow> int \<Rightarrow> int \<Rightarrow> 'l"
  needStashBuffer :: "'l \<Rightarrow> bool"

text \<open>
  The fields of \<open>IOController\<close>. The consumer callback has the prototype
  \<open>onDataArrival(chunks, byteStart): number\<close>; it is a function of the consumer's own
  state \<open>'c\<close>, which the controller carries in \<open>sink\<close>. The other listeners are
  recorded as registered or not and leave an event when called. \<open>config.isLive\<close> is the
  only configuration entry read after construction. \<open>events\<close> is the trace.
\<close>

record ('l, 'c) io_controller =
  stashInitialSize :: int
  stashUsed :: int
  stashSize :: int
  bufferSize :: int
  stashBuffer :: "byte list"
  stashByteStart :: int
  enableStash :: bool
  lastByteStart :: int
  loader :: 'l
  totalLength :: "int option"
  fullRequestFlag :: bool
  currentRange :: "byte_range option"
  redirectedURL :: "string option"
  speedNormalized :: int
  isEarlyEofReconnecting :: bool
  paused :: bool
  resumeFrom :: int
  isLive :: bool
  onDataArrival :: "('c \<Rightarrow> byte list \<Rightarrow> int \<Rightarrow> int \<times> 'c) option"
  onSeeked :: bool
  onError :: bool
  onComplete :: bool
  onRedirect :: bool
  onRecoveredEarlyEof :: bool
  sink :: 'c
  events :: "io_event list"

type_synonym ('a, 'l, 'c) outcome = "(js_error + 'a) \<times> ('l, 'c) io_controller"

definition emit :: "io_event \<Rightarrow> ('l, 'c) io_controller \<Rightarrow> ('l, 'c) io_controller" where
  "emit e s = s\<lparr>events := events s @ [e]\<rparr>"

subsection \<open>Construction\<close>

text \<open>
  The constructor, for a configuration with \<open>stashInitialSize\<close> (absent, or not positive:
  384 KiB), \<open>enableStashBuffer\<close>, \<open>isLive\<close> and the \<open>filesize\<close> of the data source
  (\<open>_refTotalLength\<close>: \<open>null\<close> when absent or zero). \<open>_createLoader\<close> turns the stash
  off when the loader says it needs none.
\<close>

definition createLoader :: "'l loader_class \<Rightarrow> ('l, 'c) io_controller \<Rightarrow> ('l, 'c) io_controller" where
  "createLoader L s =
     (let s1 = s\<lparr>loader := new_loader L\<rparr>
      in if \<not> needStashBuffer L (loader s1) then s1\<lparr>enableStash := False\<rparr> else s1)"

definition IOController ::
  "'l loader_class \<Rightarrow> int option \<Rightarrow> bool \<Rightarrow> bool \<Rightarrow> int option \<Rightarrow> 'c \<Rightarrow> ('l, 'c) io_controller" where
  "IOController L cfgStashInitialSize cfgEnableStashBuffer cfgIsLive filesize k =
     (let initial = (case cfgStashInitialSize of
                       Some n \<Rightarrow> if 0 < n then n else 1024 * 384
                     | None \<Rightarrow> 1024 * 384)
      in createLoader L
        \<lparr>stashInitialSize = initial,
         stashUsed = 0,
         stashSize = initial,
         bufferSize = 1024 * 1024 * 3,
         stashBuffer = replicate (1024 * 1024 * 3) 0,
         stashByteStart = 0,
         enableStash = cfgEnableStashBuffer,
         lastByteStart = -1,
         loader = new_loader L,
         totalLength = (case filesize of Some n \<Rightarrow> if n = 0 then None else Some n | None \<Rightarrow> None),
         fullRequestFlag = False,
         currentRange = None,
         redirectedURL = None,
         speedNormalized = 0,
         isEarlyEofReconnecting = False,
         paused = False,
         resumeFrom = 0,
         isLive = cfgIsLive,
         onDataArrival = None,
         onSeeked = False,
         onError = False,
         onComplete = False,
         onRedirect = False,
         onRecoveredEarlyEof = False,
         sink = k,
         events = []\<rparr>)"

subsection \<open>open, abort, dispatch and flush\<close>

definition isWorking :: "'l loader_class \<Rightarrow> ('l, 'c) io_controller \<Rightarrow> bool" where
  "isWorking L s \<longleftrightarrow> loader_isWorking L (loader s) \<and> \<not> paused s"

text \<open>\<open>open(optionalFrom)\<close>: an absent or zero offset is a full request.\<close>

definition open_ctl ::
  "'l loader_class \<Rightarrow> int option \<Rightarrow> ('l, 'c) io_controller \<Rightarrow> ('l, 'c) io_controller" where
  "open_ctl L optionalFrom s =
     (let from = (case optionalFrom of Some n \<Rightarrow> n | None \<Rightarrow> 0);
          s1 = s\<lparr>currentRange := Some \<lparr>range_from = from, range_to = -1\<rparr>\<rparr>;
          s2 = (if from = 0 then s1\<lparr>fullRequestFlag := True\<rparr> else s1)
      in emit (LoaderOpen from (-1)) (s2\<lparr>loader := loader_open L (loader s2) from (-1)\<rparr>))"

definition abort_ctl :: "'l loader_class \<Rightarrow> ('l, 'c) io_controller \<Rightarrow> ('l, 'c) io_controller" where
  "abort_ctl L s =
     (let s1 = emit LoaderAbort (s\<lparr>loader := loader_abort L (loader s)\<rparr>)
      in if paused s1 then s1\<lparr>paused := False, resumeFrom := 0\<rparr> else s1)"

text \<open>
  \<open>_dispatchChunks\<close>: the end of the current range moves to the last byte handed over,
  whatever the consumer then consumes. Reading \<open>.to\<close> of a \<open>null\<close> range, or calling a
  \<open>null\<close> callback, is a \<open>TypeError\<close>.
\<close>

definition dispatchChunks ::
  "byte list \<Rightarrow> int \<Rightarrow> ('l, 'c) io_controller \<Rightarrow> (int, 'l, 'c) outcome" where
  "dispatchChunks chunks byteStart s =
     (case currentRange s of
        None \<Rightarrow> (Inl TypeError, s)
      | Some r \<Rightarrow>
          (let s1 = s\<lparr>currentRange := Some (r\<lparr>range_to := byteStart + int (length chunks) - 1\<rparr>)\<rparr>
           in case onDataArrival s1 of
                None \<Rightarrow> (Inl TypeError, s1)
              | Some f \<Rightarrow>
                  (let (consumed, k) = f (sink s1) chunks byteStart
                   in (Inr consumed, emit (Dispatch chunks byteStart) (s1\<lparr>sink := k\<rparr>)))))"

text \<open>
  \<open>_flushStashBuffer(dropUnconsumed)\<close>: the used part of the stash is dispatched once;
  what the consumer left is dropped, or moved to the front and kept.
\<close>

definition flushStashBuffer ::
  "bool \<Rightarrow> ('l, 'c) io_controller \<Rightarrow> (int, 'l, 'c) outcome" where
  "flushStashBuffer dropUnconsumed s =
     (if 0 < stashUsed s then
        (let buffer = slice_to (stashBuffer s) (stashUsed s)
         in case dispatchChunks buffer (stashByteStart s) s of
              (Inl e, s1) \<Rightarrow> (Inl e, s1)
            | (Inr consumed, s1) \<Rightarrow>
                (let remain = int (length buffer) - consumed
                 in if consumed < int (length buffer) then
                      (if dropUnconsumed then
                         (Inr remain, s1\<lparr>stashUsed := 0, stashByteStart := 0\<rparr>)
                       else if 0 < consumed then
                         (if \<not> view_ok (stashBuffer s1) (bufferSize s1) then (Inl RangeError, s1)
                          else
                            (let remainArray = drop (nat consumed) buffer
                             in case set_bytes (stashBuffer s1) (bufferSize s1) remainArray 0 of
                                  None \<Rightarrow> (Inl RangeError, s1)
                                | Some b \<Rightarrow>
                                    (Inr 0, s1\<lparr>stashBuffer := b,
                                               stashUsed := int (length remainArray),
                                               stashByteStart := stashByteStart s1 + consumed\<rparr>)))
                       else (Inr 0, s1))
                    else (Inr remain, s1\<lparr>stashUsed := 0, stashByteStart := 0\<rparr>)))
      else (Inr 0, s))"

subsection \<open>pause, resume and seek\<close>

text \<open>
  \<open>_internalSeek(bytes, dropUnconsumed)\<close>: the loader is aborted if it works, the stash
  is flushed, the loader is destroyed and a new one is opened at \<open>bytes\<close> with an open end;
  the stash target goes back to its initial size.
\<close>

definition internalSeek ::
  "'l loader_class \<Rightarrow> int \<Rightarrow> bool \<Rightarrow> ('l, 'c) io_controller \<Rightarrow> (unit, 'l, 'c) outcome" where
  "internalSeek L bytes dropUnconsumed s =
     (let s1 = (if loader_isWorking L (loader s)
                then emit LoaderAbort (s\<lparr>loader := loader_abort L (loader s)\<rparr>) else s)
      in case flushStashBuffer dropUnconsumed s1 of
           (Inl e, s2) \<Rightarrow> (Inl e, s2)
         | (Inr _, s2) \<Rightarrow>
             (let s3 = emit LoaderDestroy s2;
                  s4 = s3\<lparr>currentRange := Some \<lparr>range_from = bytes, range_to = -1\<rparr>,
                          stashSize := stashInitialSize s3\<rparr>;
                  s5 = createLoader L s4;
                  s6 = emit (LoaderOpen bytes (-1)) (s5\<lparr>loader := loader_open L (loader s5) bytes (-1)\<rparr>)
              in (Inr (), if onSeeked s6 then emit Seeked s6 else s6)))"

definition pause :: "'l loader_class \<Rightarrow> ('l, 'c) io_controller \<Rightarrow> (unit, 'l, 'c) outcome" where
  "pause L s =
     (if isWorking L s then
        (let s1 = emit LoaderAbort (s\<lparr>loader := loader_abort L (loader s)\<rparr>)
         in case currentRange s1 of
              None \<Rightarrow>
                (if stashUsed s1 \<noteq> 0 then (Inl TypeError, s1\<lparr>resumeFrom := stashByteStart s1\<rparr>)
                 else (Inl TypeError, s1))
            | Some r \<Rightarrow>
                (let s2 = (if stashUsed s1 \<noteq> 0
                           then s1\<lparr>resumeFrom := stashByteStart s1,
                                   currentRange := Some (r\<lparr>range_to := stashByteStart s1 - 1\<rparr>)\<rparr>
                           else s1\<lparr>resumeFrom := range_to r + 1\<rparr>)
                 in (Inr (), s2\<lparr>stashUsed := 0, stashByteStart := 0, paused := True\<rparr>)))
      else (Inr (), s))"

definition resume :: "'l loader_class \<Rightarrow> ('l, 'c) io_controller \<Rightarrow> (unit, 'l, 'c) outcome" where
  "resume L s =
     (if paused s then
        (let bytes = resumeFrom s
         in internalSeek L bytes True (s\<lparr>paused := False, resumeFrom := 0\<rparr>))
      else (Inr (), s))"

definition seek :: "'l loader_class \<Rightarrow> int \<Rightarrow> ('l, 'c) io_controller \<Rightarrow> (unit, 'l, 'c) outcome" where
  "seek L bytes s =
     internalSeek L bytes True (s\<lparr>paused := False, stashUsed := 0, stashByteStart := 0\<rparr>)"

subsection \<open>Growing the buffer\<close>

text \<open>
  The doubling loop of \<open>_expandBuffer\<close>,
  \<^verbatim>\<open>while (bufferNewSize + 1024 * 1024 * 1 < expectedBytes) bufferNewSize *= 2;\<close>
  It does not end when it starts from a size that is not positive and the condition holds;
  \<open>None\<close> is the loop that never exits.
\<close>

partial_function (option) expandLoop :: "int \<Rightarrow> int \<Rightarrow> int option" where
  "expandLoop bufferNewSize expectedBytes =
     (if bufferNewSize + 1024 * 1024 * 1 < expectedBytes
      then expandLoop (bufferNewSize * 2) expectedBytes
      else Some bufferNewSize)"

text \<open>
  \<open>_expandBuffer(expectedBytes)\<close>: nothing happens when the computed size is the current
  one; otherwise a new zeroed buffer of that size replaces the old one, after the used
  bytes are copied over. \<open>new ArrayBuffer\<close> of a negative size, a view of \<open>_stashUsed\<close>
  bytes beyond the old buffer and a copy beyond the new one are \<open>RangeError\<close>s.
\<close>

definition expandBuffer ::
  "int \<Rightarrow> ('l, 'c) io_controller \<Rightarrow> (unit, 'l, 'c) outcome option" where
  "expandBuffer expectedBytes s =
     (case expandLoop (stashSize s) expectedBytes of
        None \<Rightarrow> None
      | Some n \<Rightarrow>
          (let bufferNewSize = n + 1024 * 1024 * 1
           in if bufferNewSize = bufferSize s then Some (Inr (), s)
              else if bufferNewSize < 0 then Some (Inl RangeError, s)
              else
                (let newBuffer = replicate (nat bufferNewSize) (0 :: byte)
                 in if 0 < stashUsed s then
                      (if \<not> view_ok (stashBuffer s) (stashUsed s) then Some (Inl RangeError, s)
                       else
                         (case set_bytes newBuffer bufferNewSize
                                 (take (nat (stashUsed s)) (stashBuffer s)) 0 of
                            None \<Rightarrow> Some (Inl RangeError, s)
                          | Some b \<Rightarrow> Some (Inr (), s\<lparr>stashBuffer := b, bufferSize := bufferNewSize\<rparr>)))
                    else Some (Inr (), s\<lparr>stashBuffer := newBuffer, bufferSize := bufferNewSize\<rparr>))))"

subsection \<open>Speed tiers\<close>

definition speedNormalizeList :: "int list" where
  "speedNormalizeList = [64, 128, 256, 384, 512, 768, 1024, 1536, 2048, 3072, 4096]"

text \<open>
  An array read: \<open>undefined\<close> (here \<open>None\<close>) outside the array, and a comparison with
  \<open>undefined\<close> is false.
\<close>

definition at_index :: "int list \<Rightarrow> int \<Rightarrow> int option" where
  "at_index list i = (if 0 \<le> i \<and> i < int (length list) then Some (list ! nat i) else None)"

definition ge_elem :: "real \<Rightarrow> int option \<Rightarrow> bool" where
  "ge_elem input e = (case e of None \<Rightarrow> False | Some v \<Rightarrow> real_of_int v \<le> input)"

definition lt_elem :: "real \<Rightarrow> int option \<Rightarrow> bool" where
  "lt_elem input e = (case e of None \<Rightarrow> False | Some v \<Rightarrow> input < real_of_int v)"

definition elem_lt :: "int option \<Rightarrow> real \<Rightarrow> bool" where
  "elem_lt e input = (case e of None \<Rightarrow> False | Some v \<Rightarrow> real_of_int v < input)"

text \<open>
  The binary search of \<open>_normalizeSpeed\<close>; \<open>None\<close> is the \<open>undefined\<close> returned when
  the loop is left without a \<open>return\<close>.
\<close>

function normalizeLoop :: "int list \<Rightarrow> real \<Rightarrow> int \<Rightarrow> int \<Rightarrow> int option" where
  "normalizeLoop list input lbound ubound =
     (if lbound \<le> ubound then
        (let mid = lbound + (ubound - lbound) div 2;
             last = int (length list) - 1
         in if mid = last \<or> (ge_elem input (at_index list mid) \<and> lt_elem input (at_index list (mid + 1)))
            then at_index list mid
            else if elem_lt (at_index list mid) input
                 then normalizeLoop list input (mid + 1) ubound
                 else normalizeLoop list input lbound (mid - 1))
      else None)"
  by pat_completeness auto
termination
  by (relation "measure (\<lambda>(list, input, lbound, ubound). nat (ubound - lbound + 1))") auto

declare normalizeLoop.simps [simp del]

definition normalizeSpeed :: "real \<Rightarrow> int option" where
  "normalizeSpeed input =
     (let list = speedNormalizeList; last = int (length list) - 1
      in if lt_elem input (at_index list 0) then at_index list 0
         else normalizeLoop list input 0 last)"

text \<open>
  \<open>_adjustStashSize(normalized)\<close>: the target in KiB for the tier, at most 8192; the
  buffer is grown first when it is smaller than the target plus 1 MiB.
  \<open>Math.floor(normalized * 1.5)\<close> is \<open>normalized * 3 div 2\<close> on the integers of the list.
\<close>

definition stashSizeKB_of :: "bool \<Rightarrow> int \<Rightarrow> int" where
  "stashSizeKB_of live normalized =
     (let stashSizeKB =
            (if live then normalized
             else if normalized < 512 then normalized
             else if 512 \<le> normalized \<and> normalized \<le> 1024 then normalized * 3 div 2
             else normalized * 2)
      in if 8192 < stashSizeKB then 8192 else stashSizeKB)"

definition adjustStashSize ::
  "int \<Rightarrow> ('l, 'c) io_controller \<Rightarrow> (unit, 'l, 'c) outcome option" where
  "adjustStashSize normalized s =
     (let stashSizeKB = stashSizeKB_of (isLive s) normalized;
          bufferSize' = stashSizeKB * 1024 + 1024 * 1024 * 1
      in case (if bufferSize s < bufferSize' then expandBuffer bufferSize' s else Some (Inr (), s)) of
           None \<Rightarrow> None
         | Some (Inl e, s1) \<Rightarrow> Some (Inl e, s1)
         | Some (Inr _, s1) \<Rightarrow> Some (Inr (), s1\<lparr>stashSize := stashSizeKB * 1024\<rparr>))"

subsection \<open>Data arrival\<close>

text \<open>
  The retiering at the head of \<open>_onLoaderChunkArrival\<close>. \<open>KBps\<close> is what the speed
  sampler (\<open>speed-sampler.js\<close>, not among the sources) reports for the last second; it is
  an input of each arrival. The tier search returns an entry of the list for every number
  (\<open>normalizeSpeed_in_list\<close> below), so its \<open>undefined\<close> never reaches this code; the
  model raises \<open>TypeError\<close> there only to be total.
\<close>

definition retier ::
  "real \<Rightarrow> ('l, 'c) io_controller \<Rightarrow> (unit, 'l, 'c) outcome option" where
  "retier KBps s =
     (if KBps \<noteq> 0 then
        (case normalizeSpeed KBps of
           None \<Rightarrow> Some (Inl TypeError, s)
         | Some normalized \<Rightarrow>
             if speedNormalized s \<noteq> normalized
             then adjustStashSize normalized (s\<lparr>speedNormalized := normalized\<rparr>)
             else Some (Inr (), s))
      else Some (Inr (), s))"

text \<open>
  The remainder of a chunk that was dispatched directly is kept at the front of the stash:
  \<^verbatim>\<open>stashArray.set(new Uint8Array(chunk, consumed), 0)\<close>, after the buffer is grown when
  the remainder is larger than it. A negative \<open>consumed\<close> is a \<open>RangeError\<close> of the view.
\<close>

definition keepRemainder ::
  "byte list \<Rightarrow> int \<Rightarrow> int \<Rightarrow> ('l, 'c) io_controller \<Rightarrow> (unit, 'l, 'c) outcome option" where
  "keepRemainder chunk byteStart consumed s =
     (let remain = int (length chunk) - consumed
      in case (if bufferSize s < remain then expandBuffer remain s else Some (Inr (), s)) of
           None \<Rightarrow> None
         | Some (Inl e, s1) \<Rightarrow> Some (Inl e, s1)
         | Some (Inr _, s1) \<Rightarrow>
             if \<not> view_ok (stashBuffer s1) (bufferSize s1) \<or> consumed < 0
             then Some (Inl RangeError, s1)
             else
               (case set_bytes (stashBuffer s1) (bufferSize s1) (drop (nat consumed) chunk) 0 of
                  None \<Rightarrow> Some (Inl RangeError, s1)
                | Some b \<Rightarrow>
                    Some (Inr (), s1\<lparr>stashBuffer := b,
                                    stashUsed := stashUsed s1 + remain,
                                    stashByteStart := byteStart + consumed\<rparr>)))"

text \<open>The stash disabled and empty: the chunk is dispatched at its own offset.\<close>

definition arrivalDirect ::
  "byte list \<Rightarrow> int \<Rightarrow> ('l, 'c) io_controller \<Rightarrow> (unit, 'l, 'c) outcome option" where
  "arrivalDirect chunk byteStart s =
     (case dispatchChunks chunk byteStart s of
        (Inl e, s1) \<Rightarrow> Some (Inl e, s1)
      | (Inr consumed, s1) \<Rightarrow>
          if consumed < int (length chunk) then keepRemainder chunk byteStart consumed s1
          else Some (Inr (), s1))"

text \<open>
  The stash disabled and holding a remainder: the chunk is appended to it, the whole is
  dispatched at the kept offset, and what is left moves to the front
  (\<^verbatim>\<open>new Uint8Array(this._stashBuffer, consumed)\<close> is the rest of the whole buffer).
\<close>

definition arrivalMerge ::
  "byte list \<Rightarrow> int \<Rightarrow> ('l, 'c) io_controller \<Rightarrow> (unit, 'l, 'c) outcome option" where
  "arrivalMerge chunk byteStart s =
     (case (if bufferSize s < stashUsed s + int (length chunk)
            then expandBuffer (stashUsed s + int (length chunk)) s else Some (Inr (), s)) of
        None \<Rightarrow> None
      | Some (Inl e, s1) \<Rightarrow> Some (Inl e, s1)
      | Some (Inr _, s1) \<Rightarrow>
          if \<not> view_ok (stashBuffer s1) (bufferSize s1) then Some (Inl RangeError, s1)
          else
            (case set_bytes (stashBuffer s1) (bufferSize s1) chunk (stashUsed s1) of
               None \<Rightarrow> Some (Inl RangeError, s1)
             | Some b \<Rightarrow>
                 (let s2 = s1\<lparr>stashBuffer := b, stashUsed := stashUsed s1 + int (length chunk)\<rparr>
                  in case dispatchChunks (slice_to (stashBuffer s2) (stashUsed s2))
                            (stashByteStart s2) s2 of
                       (Inl e, s3) \<Rightarrow> Some (Inl e, s3)
                     | (Inr consumed, s3) \<Rightarrow>
                         (case (if consumed < stashUsed s3 \<and> 0 < consumed
                                then set_bytes (stashBuffer s3) (bufferSize s3)
                                       (drop (nat consumed) (stashBuffer s3)) 0
                                else Some (stashBuffer s3)) of
                            None \<Rightarrow> Some (Inl RangeError, s3)
                          | Some b' \<Rightarrow>
                              Some (Inr (), s3\<lparr>stashBuffer := b',
                                              stashUsed := stashUsed s3 - consumed,
                                              stashByteStart := stashByteStart s3 + consumed\<rparr>)))))"

text \<open>
  The stash enabled. The first chunk anchors the stash at its offset. A chunk that fits
  under the target \<open>_stashSize\<close> is appended. Otherwise a stash that holds data is
  dispatched as a whole, its remainder compacted, and the chunk appended after it; an
  empty stash lets the chunk through directly.
\<close>

definition arrivalOverflow ::
  "byte list \<Rightarrow> int \<Rightarrow> ('l, 'c) io_controller \<Rightarrow> (unit, 'l, 'c) outcome option" where
  "arrivalOverflow chunk byteStart s =
     (let buffer = slice_to (stashBuffer s) (stashUsed s)
      in case dispatchChunks buffer (stashByteStart s) s of
           (Inl e, s1) \<Rightarrow> Some (Inl e, s1)
         | (Inr consumed, s1) \<Rightarrow>
             (let compacted =
                    (if consumed < int (length buffer) then
                       (if 0 < consumed then
                          (case set_bytes (stashBuffer s1) (bufferSize s1) (drop (nat consumed) buffer) 0 of
                             None \<Rightarrow> (Inl RangeError, s1)
                           | Some b \<Rightarrow>
                               (Inr (), s1\<lparr>stashBuffer := b,
                                          stashUsed := int (length (drop (nat consumed) buffer)),
                                          stashByteStart := stashByteStart s1 + consumed\<rparr>))
                        else (Inr (), s1))
                     else (Inr (), s1\<lparr>stashUsed := 0, stashByteStart := stashByteStart s1 + consumed\<rparr>))
              in case compacted of
                   (Inl e, s2) \<Rightarrow> Some (Inl e, s2)
                 | (Inr _, s2) \<Rightarrow>
                     (case (if bufferSize s2 < stashUsed s2 + int (length chunk)
                            then (case expandBuffer (stashUsed s2 + int (length chunk)) s2 of
                                    None \<Rightarrow> None
                                  | Some (Inl e, s3) \<Rightarrow> Some (Inl e, s3)
                                  | Some (Inr u, s3) \<Rightarrow>
                                      if view_ok (stashBuffer s3) (bufferSize s3)
                                      then Some (Inr u, s3) else Some (Inl RangeError, s3))
                            else Some (Inr (), s2)) of
                        None \<Rightarrow> None
                      | Some (Inl e, s3) \<Rightarrow> Some (Inl e, s3)
                      | Some (Inr _, s3) \<Rightarrow>
                          (case set_bytes (stashBuffer s3) (bufferSize s3) chunk (stashUsed s3) of
                             None \<Rightarrow> Some (Inl RangeError, s3)
                           | Some b \<Rightarrow>
                               Some (Inr (), s3\<lparr>stashBuffer := b,
                                               stashUsed := stashUsed s3 + int (length chunk)\<rparr>)))))"

definition arrivalStash ::
  "byte list \<Rightarrow> int \<Rightarrow> ('l, 'c) io_controller \<Rightarrow> (unit, 'l, 'c) outcome option" where
  "arrivalStash chunk byteStart s0 =
     (let s = (if stashUsed s0 = 0 \<and> stashByteStart s0 = 0
               then s0\<lparr>stashByteStart := byteStart\<rparr> else s0)
      in if stashUsed s + int (length chunk) \<le> stashSize s then
           (if \<not> view_ok (stashBuffer s) (stashSize s) then Some (Inl RangeError, s)
            else
              (case set_bytes (stashBuffer s) (stashSize s) chunk (stashUsed s) of
                 None \<Rightarrow> Some (Inl RangeError, s)
               | Some b \<Rightarrow>
                   Some (Inr (), s\<lparr>stashBuffer := b, stashUsed := stashUsed s + int (length chunk)\<rparr>)))
         else if \<not> view_ok (stashBuffer s) (bufferSize s) then Some (Inl RangeError, s)
         else if 0 < stashUsed s then arrivalOverflow chunk byteStart s
         else arrivalDirect chunk byteStart s)"

definition onLoaderChunkArrival ::
  "real \<Rightarrow> byte list \<Rightarrow> int \<Rightarrow> ('l, 'c) io_controller \<Rightarrow> (unit, 'l, 'c) outcome option" where
  "onLoaderChunkArrival KBps chunk byteStart s0 =
     (let s = s0\<lparr>lastByteStart := byteStart\<rparr>
      in if onDataArrival s = None then Some (Inl IllegalStateException, s)
         else if paused s then Some (Inr (), s)
         else
           (let s1 = (if isEarlyEofReconnecting s
                      then (let s' = s\<lparr>isEarlyEofReconnecting := False\<rparr>
                            in if onRecoveredEarlyEof s' then emit RecoveredEarlyEof s' else s')
                      else s)
            in case retier KBps s1 of
                 None \<Rightarrow> None
               | Some (Inl e, s2) \<Rightarrow> Some (Inl e, s2)
               | Some (Inr _, s2) \<Rightarrow>
                   if \<not> enableStash s2 then
                     (if stashUsed s2 = 0 then arrivalDirect chunk byteStart s2
                      else arrivalMerge chunk byteStart s2)
                   else arrivalStash chunk byteStart s2))"

subsection \<open>Completion and errors of the transport\<close>

text \<open>The message of the time-out error, \<open>'\<dots>'\<close> in the source, as its UTF-8 bytes.\<close>

definition noSignal :: string where
  "noSignal = [CHR 0xE6, CHR 0x97, CHR 0xA0, CHR 0xE4, CHR 0xBF, CHR 0xA1, CHR 0xE5, CHR 0x8F, CHR 0xB7]"

definition onLoaderComplete ::
  "int \<Rightarrow> int \<Rightarrow> ('l, 'c) io_controller \<Rightarrow> (unit, 'l, 'c) outcome" where
  "onLoaderComplete from to s =
     (case flushStashBuffer True s of
        (Inl e, s1) \<Rightarrow> (Inl e, s1)
      | (Inr _, s1) \<Rightarrow>
          if 0 \<le> lastByteStart s1 then
            (Inr (), if onComplete s1 then emit Completed s1 else s1)
          else
            (Inr (), if onError s1 then emit (ErrorRaised CONNECTING_TIMEOUT 500 noSignal) s1 else s1))"

text \<open>
  \<open>_onLoaderError(type, data)\<close>, with \<open>data = {code, msg}\<close>. \<open>this._totalLength\<close> is
  tested for truth: a known length of zero counts as unknown.
\<close>

definition onLoaderError ::
  "'l loader_class \<Rightarrow> loader_error \<Rightarrow> int \<Rightarrow> string \<Rightarrow> ('l, 'c) io_controller \<Rightarrow> (unit, 'l, 'c) outcome" where
  "onLoaderError L type code msg s =
     (case flushStashBuffer False s of
        (Inl e, s1) \<Rightarrow> (Inl e, s1)
      | (Inr _, s1) \<Rightarrow>
          (let type1 = (if isEarlyEofReconnecting s1 then UNRECOVERABLE_EARLY_EOF else type);
               s2 = (if isEarlyEofReconnecting s1 then s1\<lparr>isEarlyEofReconnecting := False\<rparr> else s1);
               known = (case totalLength s2 of None \<Rightarrow> False | Some n \<Rightarrow> n \<noteq> 0)
           in if type1 = EARLY_EOF \<and> \<not> isLive s2 \<and> known then
                (case currentRange s2 of
                   None \<Rightarrow> (Inl TypeError, s2)
                 | Some r \<Rightarrow>
                     (let nextFrom = range_to r + 1
                      in if (case totalLength s2 of None \<Rightarrow> False | Some n \<Rightarrow> nextFrom < n)
                         then internalSeek L nextFrom False (s2\<lparr>isEarlyEofReconnecting := True\<rparr>)
                         else (Inr (), s2)))
              else
                (let type2 = (if type1 = EARLY_EOF then UNRECOVERABLE_EARLY_EOF else type1)
                 in if onError s2 then (Inr (), emit (ErrorRaised type2 code msg) s2)
                    else (Inl RuntimeException, s2))))"

definition onContentLengthKnown :: "int \<Rightarrow> ('l, 'c) io_controller \<Rightarrow> ('l, 'c) io_controller" where
  "onContentLengthKnown contentLength s =
     (if contentLength \<noteq> 0 \<and> fullRequestFlag s
      then s\<lparr>totalLength := Some contentLength, fullRequestFlag := False\<rparr> else s)"

definition onURLRedirect :: "string \<Rightarrow> ('l, 'c) io_controller \<Rightarrow> ('l, 'c) io_controller" where
  "onURLRedirect url s =
     (let s1 = s\<lparr>redirectedURL := Some url\<rparr>
      in if onRedirect s1 then emit (Redirected url) s1 else s1)"

subsection \<open>Sessions\<close>

text \<open>
  One session is a sequence of calls on the controller, from its owner (\<open>open\<close>,
  \<open>abort\<close>, \<open>pause\<close>, \<open>resume\<close>, \<open>seek\<close>) and from the transport (the five
  notifications). A call that throws leaves the controller as it was at the throw, and
  the session goes on; a call that never returns ends it (\<open>None\<close>). \<open>destroy()\<close>
  ends the session and is not one of its calls.
\<close>

datatype call =
    Open "int option"
  | Abort
  | Pause
  | Resume
  | Seek int
  | ChunkArrival real "byte list" int
  | LoaderComplete int int
  | LoaderError loader_error int string
  | ContentLengthKnown int
  | URLRedirect string

definition step ::
  "'l loader_class \<Rightarrow> call \<Rightarrow> ('l, 'c) io_controller \<Rightarrow> (unit, 'l, 'c) outcome option" where
  "step L c s =
     (case c of
        Open optionalFrom \<Rightarrow> Some (Inr (), open_ctl L optionalFrom s)
      | Abort \<Rightarrow> Some (Inr (), abort_ctl L s)
      | Pause \<Rightarrow> Some (pause L s)
      | Resume \<Rightarrow> Some (resume L s)
      | Seek bytes \<Rightarrow> Some (seek L bytes s)
      | ChunkArrival KBps chunk byteStart \<Rightarrow> onLoaderChunkArrival KBps chunk byteStart s
      | LoaderComplete from to \<Rightarrow> Some (onLoaderComplete from to s)
      | LoaderError type code msg \<Rightarrow> Some (onLoaderError L type code msg s)
      | ContentLengthKnown n \<Rightarrow> Some (Inr (), onContentLengthKnown n s)
      | URLRedirect url \<Rightarrow> Some (Inr (), onURLRedirect url s))"

fun run ::
  "'l loader_class \<Rightarrow> call list \<Rightarrow> ('l, 'c) io_controller \<Rightarrow> ('l, 'c) io_controller option" where
  "run L [] s = Some s"
| "run L (c # cs) s = (case step L c s of None \<Rightarrow> None | Some (_, s1) \<Rightarrow> run L cs s1)"

section \<open>h264-demuxer.js: the demultiplexer\<close>

subsection \<open>Reading a buffer\<close>

text \<open>
  A \<open>DataView\<close> over \<open>viewLength\<close> bytes of a buffer from \<open>viewOffset\<close>. A read that
  leaves the view is a \<open>RangeError\<close>, here \<open>None\<close>.
\<close>

definition getUint8 :: "byte list \<Rightarrow> nat \<Rightarrow> nat \<Rightarrow> nat \<Rightarrow> byte option" where
  "getUint8 buffer viewOffset viewLength i =
     (if i + 1 \<le> viewLength then Some (buffer ! (viewOffset + i)) else None)"

definition getUint32 :: "byte list \<Rightarrow> nat \<Rightarrow> nat \<Rightarrow> nat \<Rightarrow> bool \<Rightarrow> nat option" where
  "getUint32 buffer viewOffset viewLength i littleEndian =
     (if i + 4 \<le> viewLength then
        (let b0 = unat (buffer ! (viewOffset + i));
             b1 = unat (buffer ! (viewOffset + i + 1));
             b2 = unat (buffer ! (viewOffset + i + 2));
             b3 = unat (buffer ! (viewOffset + i + 3))
         in Some (if littleEndian
                  then b3 * 16777216 + b2 * 65536 + b1 * 256 + b0
                  else b0 * 16777216 + b1 * 65536 + b2 * 256 + b3))
      else None)"

text \<open>\<open>n.toString(16)\<close> of a byte, and the zero that is put before a single digit.\<close>

definition hexDigit :: "nat \<Rightarrow> char" where
  "hexDigit n = ''0123456789abcdef'' ! n"

definition toString16 :: "byte \<Rightarrow> string" where
  "toString16 b =
     (if unat b < 16 then [hexDigit (unat b)]
      else [hexDigit (unat b div 16), hexDigit (unat b mod 16)])"

definition hexByte :: "byte \<Rightarrow> string" where
  "hexByte b = (let h = toString16 b in if length h < 2 then CHR ''0'' # h else h)"

subsection \<open>Data\<close>

text \<open>
  What \<open>SPSParser.parseSPS\<close> returns (\<open>sps-parser.js\<close> is not among the sources; the
  parser is a parameter of the functions below): the fields the demultiplexer reads.
\<close>

record frame_rate =
  fixed :: bool
  fps :: real
  fps_num :: int
  fps_den :: int

record dimensions =
  width :: int
  height :: int

record sps_config =
  codec_size :: dimensions
  present_size :: dimensions
  profile_string :: string
  level_string :: string
  bit_depth :: int
  chroma_format :: int
  sar_ratio :: dimensions
  sps_frame_rate :: frame_rate
  ref_frames :: int
  chroma_format_string :: string

text \<open>
  The video metadata object: four fields at creation; the geometry, assigned together
  from the parsed SPS; the codec string, assigned after it. \<open>refSampleDuration\<close> is
  \<open>timescale * (fps_den / fps_num)\<close>, kept as the exact quotient, and \<open>None\<close> when the
  division is by zero.
\<close>

record video_geometry =
  codecWidth :: int
  codecHeight :: int
  presentWidth :: int
  presentHeight :: int
  profile :: string
  level :: string
  bitDepth :: int
  chromaFormat :: int
  sarRatio :: dimensions
  frameRate :: frame_rate
  refSampleDuration :: "real option"

record video_meta =
  meta_type :: string
  meta_id :: int
  meta_timescale :: int
  meta_duration :: int
  geometry :: "video_geometry option"
  codec :: "string option"

text \<open>
  Modelled from the spec: \<open>MediaInfo\<close> of \<open>core/media-info.js\<close>, which is not among the
  sources; section 3 of the specification lists its fields, unset (\<open>None\<close>) when new.
\<close>

record media_info =
  mi_hasAudio :: "bool option"
  mi_hasVideo :: "bool option"
  mi_duration :: "int option"
  mi_width :: "int option"
  mi_height :: "int option"
  mi_fps :: "real option"
  mi_profile :: "string option"
  mi_level :: "string option"
  mi_refFrames :: "int option"
  mi_chromaFormat :: "string option"
  mi_sarNum :: "int option"
  mi_sarDen :: "int option"
  mi_videoCodec :: "string option"
  mi_mimeType :: "string option"

definition new_MediaInfo :: media_info where
  "new_MediaInfo =
     \<lparr>mi_hasAudio = None, mi_hasVideo = None, mi_duration = None, mi_width = None,
      mi_height = None, mi_fps = None, mi_profile = None, mi_level = None,
      mi_refFrames = None, mi_chromaFormat = None, mi_sarNum = None, mi_sarDen = None,
      mi_videoCodec = None, mi_mimeType = None\<rparr>"

record avc_sample =
  units :: "(nat \<times> byte list) list"
  sample_length :: nat
  isKeyframe :: bool
  dts :: int
  cts :: int
  pts :: int
  fileposition :: "int option"

record track =
  track_type :: string
  track_id :: int
  sequenceNumber :: int
  samples :: "avc_sample list"
  track_length :: nat

text \<open>
  What the demultiplexer does to the outside: calls of \<open>_onMediaInfo\<close>,
  \<open>_onTrackMetadata\<close> and \<open>_onDataAvailable\<close>, and the two warnings it logs.
\<close>

datatype dmx_event =
    MediaInfoReady media_info
  | TrackMetadataReady string video_meta
  | DataAvailable track track
  | WarnMalformedNalu int nat nat
  | WarnNaluSizeExceeds int

text \<open>
  The fields of \<open>H264Demuxer\<close> that parsing reads or writes. The four mandatory
  callbacks are recorded as set or not; \<open>emitted\<close> is the trace.
\<close>

record demuxer =
  dmx_onError :: bool
  dmx_onMediaInfo :: bool
  dmx_onTrackMetadata :: bool
  dmx_onDataAvailable :: bool
  firstParse :: bool
  dispatch :: bool
  hasAudio :: bool
  hasVideo :: bool
  audioInitialMetadataDispatched :: bool
  videoInitialMetadataDispatched :: bool
  mediaInfo :: media_info
  videoMetadata :: "video_meta option"
  naluLengthSize :: nat
  timestampBase :: int
  timescale :: int
  duration :: int
  referenceFrameRate :: frame_rate
  videoTrack :: track
  audioTrack :: track
  littleEndian :: bool
  emitted :: "dmx_event list"

text \<open>
  The constructor, for the probe data \<open>hasAudioTrack\<close> and \<open>hasVideoTrack\<close>, on a
  platform of the given byte order.
\<close>

definition H264Demuxer :: "bool \<Rightarrow> bool \<Rightarrow> bool \<Rightarrow> demuxer" where
  "H264Demuxer hasAudioTrack hasVideoTrack platformLittleEndian =
     \<lparr>dmx_onError = False,
      dmx_onMediaInfo = False,
      dmx_onTrackMetadata = False,
      dmx_onDataAvailable = False,
      firstParse = True,
      dispatch = False,
      hasAudio = hasAudioTrack,
      hasVideo = hasVideoTrack,
      audioInitialMetadataDispatched = False,
      videoInitialMetadataDispatched = False,
      mediaInfo = new_MediaInfo\<lparr>mi_hasAudio := Some hasAudioTrack, mi_hasVideo := Some hasVideoTrack\<rparr>,
      videoMetadata = None,
      naluLengthSize = 4,
      timestampBase = 0,
      timescale = 1000,
      duration = 0,
      referenceFrameRate = \<lparr>fixed = True, fps = 23.976, fps_num = 23976, fps_den = 1000\<rparr>,
      videoTrack = \<lparr>track_type = ''video'', track_id = 1, sequenceNumber = 0, samples = [], track_length = 0\<rparr>,
      audioTrack = \<lparr>track_type = ''audio'', track_id = 2, sequenceNumber = 0, samples = [], track_length = 0\<rparr>,
      littleEndian = platformLittleEndian,
      emitted = []\<rparr>"

definition emit_d :: "dmx_event \<Rightarrow> demuxer \<Rightarrow> demuxer" where
  "emit_d e d = d\<lparr>emitted := emitted d @ [e]\<rparr>"

definition isInitialMetadataDispatched :: "demuxer \<Rightarrow> bool" where
  "isInitialMetadataDispatched d =
     (if hasAudio d \<and> hasVideo d
      then audioInitialMetadataDispatched d \<and> videoInitialMetadataDispatched d
      else if hasAudio d \<and> \<not> hasVideo d then audioInitialMetadataDispatched d
      else if \<not> hasAudio d \<and> hasVideo d then videoInitialMetadataDispatched d
      else False)"

subsection \<open>The parameter-set frame\<close>

text \<open>
  \<open>_parseAVCSPSVideoData(arrayBuffer, offset)\<close>. The metadata object is created on the
  first call. The codec string reads the bytes 1 to 3 of the parameter set; where one is
  missing, \<open>codecArray[j].toString\<close> is a \<open>TypeError\<close>, after the geometry is stored.
  Calling a callback that is \<open>null\<close> is a \<open>TypeError\<close> too.
\<close>

definition parseAVCSPSVideoData ::
  "(byte list \<Rightarrow> js_error + sps_config) \<Rightarrow> byte list \<Rightarrow> nat \<Rightarrow> demuxer
     \<Rightarrow> (js_error + unit) \<times> demuxer" where
  "parseAVCSPSVideoData parseSPS arrayBuffer offset d =
     (if length arrayBuffer < offset then (Inl RangeError, d)
      else
        (let sps = drop offset arrayBuffer;
             d1 = (case videoMetadata d of
                     Some m \<Rightarrow> d
                   | None \<Rightarrow>
                       d\<lparr>hasVideo := True,
                         mediaInfo := (mediaInfo d)\<lparr>mi_hasVideo := Some True\<rparr>,
                         videoMetadata :=
                           Some \<lparr>meta_type = ''video'', meta_id = track_id (videoTrack d),
                                 meta_timescale = timescale d, meta_duration = duration d,
                                 geometry = None, codec = None\<rparr>\<rparr>)
         in case videoMetadata d1 of
              None \<Rightarrow> (Inl TypeError, d1)
            | Some meta \<Rightarrow>
                (case parseSPS sps of
                   Inl e \<Rightarrow> (Inl e, d1)
                 | Inr config \<Rightarrow>
                     (let rate = (if \<not> fixed (sps_frame_rate config)
                                       \<or> fps_num (sps_frame_rate config) = 0
                                       \<or> fps_den (sps_frame_rate config) = 0
                                  then referenceFrameRate d1 else sps_frame_rate config);
                          g = \<lparr>codecWidth = width (codec_size config),
                               codecHeight = height (codec_size config),
                               presentWidth = width (present_size config),
                               presentHeight = height (present_size config),
                               profile = profile_string config,
                               level = level_string config,
                               bitDepth = bit_depth config,
                               chromaFormat = chroma_format config,
                               sarRatio = sar_ratio config,
                               frameRate = rate,
                               refSampleDuration =
                                 (if fps_num rate = 0 then None
                                  else Some (real_of_int (meta_timescale meta)
                                             * (real_of_int (fps_den rate) / real_of_int (fps_num rate))))\<rparr>;
                          meta1 = meta\<lparr>geometry := Some g\<rparr>;
                          d2 = d1\<lparr>videoMetadata := Some meta1\<rparr>
                      in if length sps < 4 then (Inl TypeError, d2)
                         else
                           (let codecString = ''avc1.'' @ hexByte (sps ! 1) @ hexByte (sps ! 2)
                                                @ hexByte (sps ! 3);
                                meta2 = meta1\<lparr>codec := Some codecString\<rparr>;
                                mi = (mediaInfo d2)
                                       \<lparr>mi_width := Some (codecWidth g),
                                        mi_height := Some (codecHeight g),
                                        mi_fps := Some (fps rate),
                                        mi_profile := Some (profile g),
                                        mi_level := Some (level g),
                                        mi_refFrames := Some (ref_frames config),
                                        mi_chromaFormat := Some (chroma_format_string config),
                                        mi_sarNum := Some (width (sarRatio g)),
                                        mi_sarDen := Some (height (sarRatio g)),
                                        mi_videoCodec := Some codecString,
                                        mi_mimeType := Some (''video/x-flv; codecs='' @ [CHR 0x22]
                                                             @ codecString @ [CHR 0x22])\<rparr>;
                                d3 = d2\<lparr>videoMetadata := Some meta2, mediaInfo := mi\<rparr>
                            in if \<not> dmx_onMediaInfo d3 then (Inl TypeError, d3)
                               else
                                 (let d4 = emit_d (MediaInfoReady mi) d3
                                  in if \<not> dmx_onTrackMetadata d4 then (Inl TypeError, d4)
                                     else (Inr (), emit_d (TrackMetadataReady ''video'' meta2) d4)))))))"

subsection \<open>The frame\<close>

text \<open>
  The last statement of \<open>_parseVideoData\<close> is
  \<^verbatim>\<open>this._parseAVCVideoPacket(arrayBuffer, dataOffset + 1, dataSize - 1, tagTimestamp, tagPosition, frameType);\<close>
  The five identifiers after \<open>arrayBuffer\<close> are declared nowhere in the module, so
  they resolve on the global object, and the class defines no \<open>_parseAVCVideoPacket\<close>.
  The arguments are evaluated first, from the left: an identifier that does not resolve is
  a \<open>ReferenceError\<close>; then the call of a property that is not there is a \<open>TypeError\<close>.
  What the global object binds, and a method that an embedding page may have added to the
  instance, are the environment of the call.
\<close>

record js_env =
  global_number :: "string \<Rightarrow> int option"
  packetParser ::
    "(demuxer \<Rightarrow> byte list \<Rightarrow> int \<Rightarrow> int \<Rightarrow> int \<Rightarrow> int \<Rightarrow> int \<Rightarrow> (js_error + unit) \<times> demuxer) option"

text \<open>The environment the module has on its own: no such globals, no such method.\<close>

definition module_env :: js_env where
  "module_env = \<lparr>global_number = (\<lambda>name. None), packetParser = None\<rparr>"

definition callPacketParser :: "js_env \<Rightarrow> byte list \<Rightarrow> demuxer \<Rightarrow> (js_error + unit) \<times> demuxer" where
  "callPacketParser env arrayBuffer d =
     (case global_number env ''dataOffset'' of
        None \<Rightarrow> (Inl ReferenceError, d)
      | Some dataOffset \<Rightarrow>
     (case global_number env ''dataSize'' of
        None \<Rightarrow> (Inl ReferenceError, d)
      | Some dataSize \<Rightarrow>
     (case global_number env ''tagTimestamp'' of
        None \<Rightarrow> (Inl ReferenceError, d)
      | Some tagTimestamp \<Rightarrow>
     (case global_number env ''tagPosition'' of
        None \<Rightarrow> (Inl ReferenceError, d)
      | Some tagPosition \<Rightarrow>
     (case global_number env ''frameType'' of
        None \<Rightarrow> (Inl ReferenceError, d)
      | Some frameType \<Rightarrow>
     (case packetParser env of
        None \<Rightarrow> (Inl TypeError, d)
      | Some parse \<Rightarrow>
          parse d arrayBuffer (dataOffset + 1) (dataSize - 1) tagTimestamp tagPosition frameType))))))"

text \<open>
  \<open>_parseVideoData(arrayBuffer)\<close>: a 32-bit timestamp and the NAL header byte are read
  from the start of the buffer, without a check of its length.
\<close>

definition parseVideoData ::
  "js_env \<Rightarrow> (byte list \<Rightarrow> js_error + sps_config) \<Rightarrow> byte list \<Rightarrow> demuxer
     \<Rightarrow> (js_error + unit) \<times> demuxer" where
  "parseVideoData env parseSPS arrayBuffer d =
     (case getUint32 arrayBuffer 0 (length arrayBuffer) 0 (\<not> littleEndian d) of
        None \<Rightarrow> (Inl RangeError, d)
      | Some timestamp \<Rightarrow>
          (case getUint8 arrayBuffer 0 (length arrayBuffer) 4 of
             None \<Rightarrow> (Inl RangeError, d)
           | Some naluHeader \<Rightarrow>
               (let naluType = naluHeader AND 0x1f
                in case (if naluType = 7 then parseAVCSPSVideoData parseSPS arrayBuffer 5 d
                         else (Inr (), d)) of
                     (Inl e, d1) \<Rightarrow> (Inl e, d1)
                   | (Inr _, d1) \<Rightarrow> callPacketParser env arrayBuffer d1)))"

text \<open>
  \<open>parseChunks(chunk, byteStart)\<close>: refuses to run without the four callbacks; after the
  frame is parsed, the tracks are handed on when the initial metadata of every present
  track has been dispatched, \<open>_dispatch\<close> is set and a track holds bytes; the result is
  the length of the chunk.
\<close>

definition parseChunks ::
  "js_env \<Rightarrow> (byte list \<Rightarrow> js_error + sps_config) \<Rightarrow> byte list \<Rightarrow> int \<Rightarrow> demuxer
     \<Rightarrow> (js_error + int) \<times> demuxer" where
  "parseChunks env parseSPS chunk byteStart d =
     (if \<not> dmx_onError d \<or> \<not> dmx_onMediaInfo d \<or> \<not> dmx_onTrackMetadata d \<or> \<not> dmx_onDataAvailable d
      then (Inl IllegalStateException, d)
      else
        (let d1 = (if firstParse d then d\<lparr>firstParse := False\<rparr> else d)
         in case parseVideoData env parseSPS chunk d1 of
              (Inl e, d2) \<Rightarrow> (Inl e, d2)
            | (Inr _, d2) \<Rightarrow>
                (let d3 = (if isInitialMetadataDispatched d2 \<and> dispatch d2
                                \<and> (track_length (audioTrack d2) \<noteq> 0 \<or> track_length (videoTrack d2) \<noteq> 0)
                           then emit_d (DataAvailable (audioTrack d2) (videoTrack d2)) d2
                           else d2)
                 in (Inr (int (length chunk)), d3))))"

text \<open>
  A session of the demultiplexer: the chunks it is handed one after the other. A call
  that throws leaves the demultiplexer as it was at the throw.
\<close>

fun feed ::
  "js_env \<Rightarrow> (byte list \<Rightarrow> js_error + sps_config) \<Rightarrow> byte list list \<Rightarrow> demuxer \<Rightarrow> demuxer" where
  "feed env parseSPS [] d = d"
| "feed env parseSPS (chunk # chunks) d =
     feed env parseSPS chunks (snd (parseChunks env parseSPS chunk 0 d))"

subsection \<open>The units of a frame\<close>

datatype scan =
    Scanned "(nat \<times> byte list) list" nat bool "dmx_event list"
  | Returned "dmx_event list"
  | Raised js_error

text \<open>
  The loop of \<open>_parseAVCVideoData\<close> over the length-prefixed units in the \<open>dataSize\<close>
  bytes from \<open>dataOffset\<close>, with its variables \<open>offset\<close>, \<open>units\<close>, \<open>length\<close> and
  \<open>keyframe\<close>. \<open>break\<close> ends the scan with what was collected; \<open>return\<close> gives the
  frame up. \<^verbatim>\<open>new Uint8Array(arrayBuffer, dataOffset + offset, lengthSize + naluSize)\<close> is a
  \<open>RangeError\<close> when it leaves the buffer. The loop does not advance when the prefix
  width and the unit length are both zero.
\<close>

partial_function (option) scanNalus ::
  "byte list \<Rightarrow> bool \<Rightarrow> nat \<Rightarrow> nat \<Rightarrow> nat \<Rightarrow> int
     \<Rightarrow> nat \<times> (nat \<times> byte list) list \<times> nat \<times> bool \<Rightarrow> scan option" where
  "scanNalus arrayBuffer le dataOffset dataSize lengthSize dtsValue st =
     (case st of (offset, us, len, keyframe) \<Rightarrow>
        if offset < dataSize then
          (if dataSize \<le> offset + 4
           then Some (Scanned us len keyframe [WarnMalformedNalu dtsValue offset dataSize])
           else
             (case getUint32 arrayBuffer dataOffset dataSize offset (\<not> le) of
                None \<Rightarrow> Some (Raised RangeError)
              | Some raw \<Rightarrow>
                  (let naluSize = (if lengthSize = 3 then raw div 256 else raw)
                   in if int dataSize - int lengthSize < int naluSize
                      then Some (Returned [WarnNaluSizeExceeds dtsValue])
                      else
                        (case getUint8 arrayBuffer dataOffset dataSize (offset + lengthSize) of
                           None \<Rightarrow> Some (Raised RangeError)
                         | Some b \<Rightarrow>
                             (let unitType = unat (b AND 0x1F)
                              in if length arrayBuffer < dataOffset + offset + (lengthSize + naluSize)
                                 then Some (Raised RangeError)
                                 else
                                   scanNalus arrayBuffer le dataOffset dataSize lengthSize dtsValue
                                     (offset + (lengthSize + naluSize),
                                      us @ [(unitType,
                                                take (lengthSize + naluSize)
                                                  (drop (dataOffset + offset) arrayBuffer))],
                                      len + (lengthSize + naluSize),
                                      unitType = 5 \<or> keyframe))))))
        else Some (Scanned us len keyframe []))"

text \<open>
  \<open>_parseAVCVideoData(arrayBuffer, dataOffset, dataSize, tagTimestamp, tagPosition,
  frameType, cts)\<close>: a scan that collected units appends one sample to the video track.
\<close>

definition parseAVCVideoData ::
  "byte list \<Rightarrow> nat \<Rightarrow> nat \<Rightarrow> int \<Rightarrow> int \<Rightarrow> int \<Rightarrow> int \<Rightarrow> demuxer
     \<Rightarrow> ((js_error + unit) \<times> demuxer) option" where
  "parseAVCVideoData arrayBuffer dataOffset dataSize tagTimestamp tagPosition frameType ctsArg d =
     (if length arrayBuffer < dataOffset + dataSize then Some (Inl RangeError, d)
      else
        (let dtsValue = timestampBase d + tagTimestamp
         in case scanNalus arrayBuffer (littleEndian d) dataOffset dataSize (naluLengthSize d)
                   dtsValue (0, [], 0, frameType = 1) of
              None \<Rightarrow> None
            | Some (Raised e) \<Rightarrow> Some (Inl e, d)
            | Some (Returned ws) \<Rightarrow> Some (Inr (), d\<lparr>emitted := emitted d @ ws\<rparr>)
            | Some (Scanned us len keyframe ws) \<Rightarrow>
                (let d1 = d\<lparr>emitted := emitted d @ ws\<rparr>
                 in if us \<noteq> [] then
                      (let avcSample =
                             \<lparr>units = us, sample_length = len, isKeyframe = keyframe,
                              dts = dtsValue, cts = ctsArg, pts = dtsValue + ctsArg,
                              fileposition = (if keyframe then Some tagPosition else None)\<rparr>;
                           t = videoTrack d1
                       in Some (Inr (),
                                d1\<lparr>videoTrack :=
                                     t\<lparr>samples := samples t @ [avcSample],
                                       track_length := track_length t + len\<rparr>\<rparr>))
                    else Some (Inr (), d1))))"

section \<open>Notions used in the statements\<close>

subsection \<open>Capacity\<close>

text \<open>
  Between two states of a controller: the capacity has not gone down, and a buffer that
  was as long as the capacity says still is.
\<close>

definition capacity_kept :: "('l, 'c) io_controller \<Rightarrow> ('l, 'c) io_controller \<Rightarrow> bool" where
  "capacity_kept s s' \<longleftrightarrow>
     bufferSize s \<le> bufferSize s' \<and>
     (int (length (stashBuffer s)) = bufferSize s \<longrightarrow> int (length (stashBuffer s')) = bufferSize s')"

subsection \<open>A concrete transport and consumer\<close>

text \<open>
  A loader whose state is whether it is working: opening starts it, aborting stops it, and
  it asks for the stash. A consumer without state that takes every byte it is handed, and
  one that leaves the last \<open>n\<close> bytes of each dispatch.
\<close>

definition flag_loader :: "bool loader_class" where
  "flag_loader =
     \<lparr>new_loader = False,
      loader_isWorking = (\<lambda>w. w),
      loader_abort = (\<lambda>w. False),
      loader_open = (\<lambda>w from to. True),
      needStashBuffer = (\<lambda>w. True)\<rparr>"

definition consume_all :: "unit \<Rightarrow> byte list \<Rightarrow> int \<Rightarrow> int \<times> unit" where
  "consume_all k chunks byteStart = (int (length chunks), k)"

definition consume_but :: "int \<Rightarrow> unit \<Rightarrow> byte list \<Rightarrow> int \<Rightarrow> int \<times> unit" where
  "consume_but n k chunks byteStart = (int (length chunks) - n, k)"

text \<open>
  A controller as its owner sets it up: constructed for a bounded source of one million
  bytes with the default configuration, and every listener registered.
\<close>

definition listening :: "('l, 'c) io_controller \<Rightarrow> ('c \<Rightarrow> byte list \<Rightarrow> int \<Rightarrow> int \<times> 'c) \<Rightarrow> ('l, 'c) io_controller" where
  "listening s f =
     s\<lparr>onDataArrival := Some f, onSeeked := True, onError := True, onComplete := True,
       onRedirect := True, onRecoveredEarlyEof := True\<rparr>"

definition fresh_controller :: "(bool, unit) io_controller" where
  "fresh_controller = listening (IOController flag_loader None True False (Some 1000000) ()) consume_all"

text \<open>
  The same controller with a consumer that leaves the last 5 KiB of what it is handed, for
  the pause scenario of the specification: when a chunk of 400000 bytes passes the empty
  stash, the stash keeps its last 5120 bytes at offset 394880 while the current range ends
  at 399999.
\<close>

definition sparing_controller :: "(bool, unit) io_controller" where
  "sparing_controller =
     listening (IOController flag_loader None True False (Some 1000000) ()) (consume_but 5120)"

text \<open>
  The bytes the transport has delivered in a sequence of calls, and the offsets of its
  data-arrival notifications, in order.
\<close>

fun bytes_received :: "call list \<Rightarrow> nat" where
  "bytes_received [] = 0"
| "bytes_received (ChunkArrival KBps chunk byteStart # cs) = length chunk + bytes_received cs"
| "bytes_received (c # cs) = bytes_received cs"

fun arrival_starts :: "call list \<Rightarrow> int list" where
  "arrival_starts [] = []"
| "arrival_starts (ChunkArrival KBps chunk byteStart # cs) = byteStart # arrival_starts cs"
| "arrival_starts (c # cs) = arrival_starts cs"

text \<open>The trace of a session: what the collaborators and the listeners have seen.\<close>

definition trace_of :: "'l loader_class \<Rightarrow> call list \<Rightarrow> ('l, 'c) io_controller \<Rightarrow> io_event list option" where
  "trace_of L cs s = map_option events (run L cs s)"

text \<open>
  The occupied region of the stash, and what is left of dispatched data when the consumer
  reports \<open>consumed\<close> bytes taken: nothing if that covers the data, the data after them
  if it is positive, and all of the data otherwise.
\<close>

definition stash_bytes :: "('l, 'c) io_controller \<Rightarrow> byte list" where
  "stash_bytes s = slice_to (stashBuffer s) (stashUsed s)"

definition unconsumed :: "int \<Rightarrow> byte list \<Rightarrow> byte list" where
  "unconsumed consumed buffer =
     (if int (length buffer) \<le> consumed then []
      else if 0 < consumed then drop (nat consumed) buffer
      else buffer)"

text \<open>
  The buffer after \<open>_flushStashBuffer(false)\<close> has moved a remainder to the front.
\<close>

definition compacted :: "int \<Rightarrow> ('l, 'c) io_controller \<Rightarrow> byte list" where
  "compacted c s =
     (if 0 < c \<and> c < stashUsed s
      then drop (nat c) (stash_bytes s) @ drop (length (stash_bytes s) - nat c) (stashBuffer s)
      else stashBuffer s)"

fun is_open :: "io_event \<Rightarrow> bool" where
  "is_open (LoaderOpen from to) = True"
| "is_open e = False"

fun is_error :: "io_event \<Rightarrow> bool" where
  "is_error (ErrorRaised type code msg) = True"
| "is_error e = False"

text \<open>The dispatches of a trace, in order: the number of bytes handed over and the offset.\<close>

fun dispatch_sizes :: "io_event list \<Rightarrow> (nat \<times> int) list" where
  "dispatch_sizes [] = []"
| "dispatch_sizes (Dispatch chunks byteStart # es) = (length chunks, byteStart) # dispatch_sizes es"
| "dispatch_sizes (e # es) = dispatch_sizes es"

definition dispatch_log :: "'l loader_class \<Rightarrow> call list \<Rightarrow> ('l, 'c) io_controller \<Rightarrow> (nat \<times> int) list option" where
  "dispatch_log L cs s = map_option (\<lambda>s'. dispatch_sizes (events s')) (run L cs s)"

text \<open>
  A controller configured with an initial stash size of 64 KiB, for a bounded source, with
  a consumer that takes everything.
\<close>

definition small_stash_controller :: "(bool, unit) io_controller" where
  "small_stash_controller =
     listening (IOController flag_loader (Some 65536) True False (Some 1000000) ()) consume_all"

text \<open>
  A controller configured with an initial stash size of 8 bytes, so that a chunk of 10
  bytes is larger than the stash; and two chunks that follow each other in the stream from
  offset 5000.
\<close>

definition tiny_stash_controller :: "(bool, unit) io_controller" where
  "tiny_stash_controller =
     listening (IOController flag_loader (Some 8) True False (Some 1000000) ()) consume_all"

definition ten_bytes :: "byte list" where
  "ten_bytes = [0, 1, 2, 3, 4, 5, 6, 7, 8, 9]"

definition three_bytes :: "byte list" where
  "three_bytes = [10, 11, 12]"

subsection \<open>Notions of the demultiplexer's statements\<close>

definition callbacks_set :: "demuxer \<Rightarrow> bool" where
  "callbacks_set d \<longleftrightarrow>
     dmx_onError d \<and> dmx_onMediaInfo d \<and> dmx_onTrackMetadata d \<and> dmx_onDataAvailable d"

text \<open>A chunk whose header byte, the fifth, has the type 7 in its low five bits.\<close>

definition is_sps_frame :: "byte list \<Rightarrow> bool" where
  "is_sps_frame chunk \<longleftrightarrow> 5 \<le> length chunk \<and> (chunk ! 4) AND 0x1f = 7"

text \<open>
  A demultiplexer as \<open>probe\<close> and its owner set it up: video only, little-endian
  platform, the four callbacks registered.
\<close>

definition ready_demuxer :: demuxer where
  "ready_demuxer =
     (H264Demuxer False True True)
       \<lparr>dmx_onError := True, dmx_onMediaInfo := True, dmx_onTrackMetadata := True,
        dmx_onDataAvailable := True\<rparr>"

text \<open>
  A stand-in for the SPS parser that reads the size from four bytes after the three codec
  bytes, and one that always fails.
\<close>

definition toy_sps_parser :: "byte list \<Rightarrow> js_error + sps_config" where
  "toy_sps_parser sps =
     (if length sps < 8 then Inl RangeError
      else
        (let w = int (unat (sps ! 4)) * 256 + int (unat (sps ! 5));
             h = int (unat (sps ! 6)) * 256 + int (unat (sps ! 7))
         in Inr \<lparr>codec_size = \<lparr>width = w, height = h\<rparr>,
                 present_size = \<lparr>width = w, height = h\<rparr>,
                 profile_string = ''High'', level_string = ''4.0'', bit_depth = 8,
                 chroma_format = 420, sar_ratio = \<lparr>width = 1, height = 1\<rparr>,
                 sps_frame_rate = \<lparr>fixed = True, fps = 25, fps_num = 25000, fps_den = 1000\<rparr>,
                 ref_frames = 1, chroma_format_string = ''4:2:0''\<rparr>))"

definition failing_sps_parser :: "byte list \<Rightarrow> js_error + sps_config" where
  "failing_sps_parser sps = Inl TypeError"

text \<open>
  The end of \<open>parseChunks\<close> (lines 268 to 272): the accumulated samples are delivered
  if the initial metadata has been dispatched, dispatching is on and a track holds samples.
\<close>

definition samples_if_ready :: "demuxer \<Rightarrow> demuxer" where
  "samples_if_ready d =
     (if isInitialMetadataDispatched d \<and> dispatch d \<and>
         (track_length (audioTrack d) \<noteq> 0 \<or> track_length (videoTrack d) \<noteq> 0)
      then emit_d (DataAvailable (audioTrack d) (videoTrack d)) d
      else d)"

text \<open>
  A frame of 20 bytes with a 4-byte prefix: a unit of 4 bytes, then a unit that declares
  16 bytes where 8 are left. And the same frame in a buffer that goes on after it.
\<close>

definition overrun_frame :: "byte list" where
  "overrun_frame = [0, 0, 0, 4, 0x41, 1, 2, 3, 0, 0, 0, 16, 0x41, 0, 0, 0, 0, 0, 0, 0]"

definition overrun_frame_in_longer_buffer :: "byte list" where
  "overrun_frame_in_longer_buffer = overrun_frame @ [9, 9, 9, 9, 9, 9, 9, 9, 9, 9]"

text \<open>Three chunks: a slice frame, a parameter-set frame of 1920 by 1080, an IDR frame.\<close>

definition slice_chunk :: "byte list" where
  "slice_chunk = [0, 0, 0, 0, 0x41, 1, 2, 3]"

definition sps_chunk :: "byte list" where
  "sps_chunk = [0, 0, 0, 0, 0x67, 0x67, 0x64, 0x00, 0x28, 0x07, 0x80, 0x04, 0x38]"

definition idr_chunk :: "byte list" where
  "idr_chunk = [0, 0, 0, 40, 0x65, 1, 2, 3]"

text \<open>The kind of a notification, for counting and ordering them in a trace.\<close>

datatype notification = MediaInfoN | TrackMetadataN | DataAvailableN | WarningN

fun kind :: "dmx_event \<Rightarrow> notification" where
  "kind (MediaInfoReady mi) = MediaInfoN"
| "kind (TrackMetadataReady t meta) = TrackMetadataN"
| "kind (DataAvailable a v) = DataAvailableN"
| "kind (WarnMalformedNalu d offset dataSize) = WarningN"
| "kind (WarnNaluSizeExceeds d) = WarningN"

text \<open>What a session is expected to emit, chunk by chunk: a pair for each type-7 frame.\<close>

definition metadata_pairs :: "byte list list \<Rightarrow> notification list" where
  "metadata_pairs chunks =
     concat (map (\<lambda>c. if is_sps_frame c then [MediaInfoN, TrackMetadataN] else []) chunks)"

definition decodable :: "(byte list \<Rightarrow> js_error + sps_config) \<Rightarrow> byte list \<Rightarrow> bool" where
  "decodable parseSPS chunk \<longleftrightarrow>
     9 \<le> length chunk \<and> (case parseSPS (drop 5 chunk) of Inl e \<Rightarrow> False | Inr config \<Rightarrow> True)"

section \<open>Properties of the controller\<close>

subsection \<open>The loops\<close>

text \<open>
  The doubling loop ends at a size that reaches the expected one; it ends whenever it
  starts from a positive size, and never when it has to grow from a size that is not
  positive. The tier search returns an entry of the list for every rate.
\<close>

lemma expandLoop_exit: "expandLoop n e = Some m \<Longrightarrow> e \<le> m + 1048576"
  by (rule expandLoop.raw_induct[where P = "\<lambda>n e m. e \<le> m + 1048576"]) (auto split: if_splits)

lemma expandLoop_ge:
  assumes "expandLoop n e = Some m" shows "0 < n \<longrightarrow> n \<le> m"
  using assms
proof (rule expandLoop.raw_induct[rotated, where P = "\<lambda>n e m. 0 < n \<longrightarrow> n \<le> m"])
  fix f :: "int \<Rightarrow> int \<Rightarrow> int option" and k e' r
  assume ih: "\<And>a b y. f a b = Some y \<Longrightarrow> 0 < a \<longrightarrow> a \<le> y"
    and body: "(if k + 1024 * 1024 * 1 < e' then f (k * 2) e' else Some k) = Some r"
  show "0 < k \<longrightarrow> k \<le> r"
  proof (cases "k + 1024 * 1024 * 1 < e'")
    case True
    with body have "f (k * 2) e' = Some r" by simp
    from ih[OF this] show ?thesis by auto
  next
    case False
    with body show ?thesis by simp
  qed
qed

lemma expandLoop_terminates: "0 < n \<Longrightarrow> \<exists>m. expandLoop n e = Some m"
proof (induct "nat (e - n)" arbitrary: n rule: less_induct)
  case less
  show ?case
  proof (cases "n + 1024 * 1024 * 1 < e")
    case True
    have "nat (e - n * 2) < nat (e - n)" using True less.prems by simp
    from less.hyps[OF this] less.prems obtain m where "expandLoop (n * 2) e = Some m" by auto
    then show ?thesis using True by (subst expandLoop.simps) simp
  next
    case False
    then show ?thesis by (subst expandLoop.simps) simp
  qed
qed

lemma expandLoop_diverges:
  assumes "n \<le> 0" "n + 1048576 < e" shows "expandLoop n e = None"
proof (cases "expandLoop n e")
  case None
  then show ?thesis .
next
  case (Some m)
  then have "\<not> (n \<le> 0 \<and> n + 1048576 < e)"
  proof (rule expandLoop.raw_induct[rotated, where P = "\<lambda>n e m. \<not> (n \<le> 0 \<and> n + 1048576 < e)"])
    fix f :: "int \<Rightarrow> int \<Rightarrow> int option" and k e' r
    assume ih: "\<And>a b y. f a b = Some y \<Longrightarrow> \<not> (a \<le> 0 \<and> a + 1048576 < b)"
      and body: "(if k + 1024 * 1024 * 1 < e' then f (k * 2) e' else Some k) = Some r"
    show "\<not> (k \<le> 0 \<and> k + 1048576 < e')"
    proof
      assume a: "k \<le> 0 \<and> k + 1048576 < e'"
      with body have "f (k * 2) e' = Some r" by simp
      from ih[OF this] a show False by simp
    qed
  qed
  with assms show ?thesis by simp
qed


lemmas tier_defs = normalizeSpeed_def speedNormalizeList_def at_index_def ge_elem_def lt_elem_def elem_lt_def

lemma normalizeSpeed_in_list: "\<exists>n. normalizeSpeed x = Some n \<and> n \<in> set speedNormalizeList"
proof -
  consider "x < 64" | "64 \<le> x" "x < 128" | "128 \<le> x" "x < 256" | "256 \<le> x" "x < 384"
    | "384 \<le> x" "x < 512" | "512 \<le> x" "x < 768" | "768 \<le> x" "x < 1024"
    | "1024 \<le> x" "x < 1536" | "1536 \<le> x" "x < 2048" | "2048 \<le> x" "x < 3072"
    | "3072 \<le> x" "x < 4096" | "4096 \<le> x"
    by linarith
  then show ?thesis
    by cases (simp_all add: tier_defs normalizeLoop.simps)
qed

subsection \<open>Capacity of the stash buffer\<close>

lemma capacity_kept_refl: "capacity_kept s s"
  by (simp add: capacity_kept_def)

lemma capacity_kept_trans: "capacity_kept s s1 \<Longrightarrow> capacity_kept s1 s2 \<Longrightarrow> capacity_kept s s2"
  by (auto simp add: capacity_kept_def)

lemma capacity_kept_same:
  "bufferSize s' = bufferSize s \<Longrightarrow> length (stashBuffer s') = length (stashBuffer s) \<Longrightarrow> capacity_kept s s'"
  by (simp add: capacity_kept_def)

lemma set_bytes_length:
  "set_bytes buf vl src off = Some b \<Longrightarrow> vl \<le> int (length buf) \<Longrightarrow> length b = length buf"
  by (auto simp add: set_bytes_def split: if_splits)
lemma set_bytes_len_imp:
  "set_bytes buf vl src off = Some b \<Longrightarrow> vl \<le> int (length buf) \<longrightarrow> length b = length buf"
  by (auto simp add: set_bytes_def split: if_splits)

lemma dispatchChunks_kept:
  "dispatchChunks c b s = (r, s') \<Longrightarrow> bufferSize s' = bufferSize s \<and> stashBuffer s' = stashBuffer s"
  by (auto simp add: dispatchChunks_def emit_def Let_def split: option.splits prod.splits)
lemma flushStashBuffer_kept:
  "flushStashBuffer d s = (r, s') \<Longrightarrow> capacity_kept s s'"
  apply (rule capacity_kept_same)
   apply (auto simp add: flushStashBuffer_def Let_def view_ok_def split: if_splits sum.splits prod.splits option.splits
       dest!: dispatchChunks_kept dest: set_bytes_length)
  done

lemma emit_kept [simp]: "bufferSize (emit e s) = bufferSize s" "stashBuffer (emit e s) = stashBuffer s"
  by (simp_all add: emit_def)

lemma createLoader_kept [simp]:
  "bufferSize (createLoader L s) = bufferSize s" "stashBuffer (createLoader L s) = stashBuffer s"
  by (simp_all add: createLoader_def Let_def)

lemma internalSeek_kept: "internalSeek L bytes d s = (r, s') \<Longrightarrow> capacity_kept s s'"
  by (auto simp add: internalSeek_def Let_def capacity_kept_def split: if_splits sum.splits prod.splits
      dest!: flushStashBuffer_kept)
lemma pause_kept: "pause L s = (r, s') \<Longrightarrow> capacity_kept s s'"
  by (auto simp add: pause_def Let_def capacity_kept_def split: if_splits option.splits)
lemma resume_kept: "resume L s = (r, s') \<Longrightarrow> capacity_kept s s'"
  by (auto simp add: resume_def Let_def capacity_kept_def split: if_splits dest!: internalSeek_kept)

lemma seek_kept: "seek L bytes s = (r, s') \<Longrightarrow> capacity_kept s s'"
  by (auto simp add: seek_def capacity_kept_def dest!: internalSeek_kept)
lemma onLoaderComplete_kept: "onLoaderComplete from to s = (r, s') \<Longrightarrow> capacity_kept s s'"
  by (auto simp add: onLoaderComplete_def capacity_kept_def split: if_splits sum.splits prod.splits
      dest!: flushStashBuffer_kept)
lemma onLoaderError_kept: "onLoaderError L type code msg s = (r, s') \<Longrightarrow> capacity_kept s s'"
  by (auto simp add: onLoaderError_def Let_def capacity_kept_def split: if_splits sum.splits prod.splits option.splits
      dest!: flushStashBuffer_kept internalSeek_kept)

lemma expandBuffer_kept:
  "expandBuffer e s = Some (r, s') \<Longrightarrow> bufferSize s < e \<Longrightarrow> capacity_kept s s'"
  by (auto simp add: expandBuffer_def Let_def capacity_kept_def set_bytes_def
      split: if_splits option.splits dest!: expandLoop_exit)

lemma adjustStashSize_kept: "adjustStashSize n s = Some (r, s') \<Longrightarrow> capacity_kept s s'"
  unfolding adjustStashSize_def Let_def
  by (auto simp add: capacity_kept_def split: if_splits option.splits prod.splits sum.splits dest!: expandBuffer_kept)
lemma retier_kept: "retier KBps s = Some (r, s') \<Longrightarrow> capacity_kept s s'"
  by (auto simp add: retier_def capacity_kept_def split: if_splits option.splits dest!: adjustStashSize_kept)
lemma keepRemainder_kept: "keepRemainder chunk b consumed s = Some (r, s') \<Longrightarrow> capacity_kept s s'"
  unfolding keepRemainder_def Let_def
  by (auto simp add: capacity_kept_def view_ok_def split: if_splits option.splits prod.splits sum.splits
      dest!: expandBuffer_kept dest: set_bytes_length)
lemma arrivalDirect_kept: "arrivalDirect chunk b s = Some (r, s') \<Longrightarrow> capacity_kept s s'"
  by (auto simp add: arrivalDirect_def capacity_kept_def split: if_splits prod.splits sum.splits
      dest!: keepRemainder_kept dispatchChunks_kept)
lemma arrivalMerge_kept: "arrivalMerge chunk b s = Some (r, s') \<Longrightarrow> capacity_kept s s'"
  unfolding arrivalMerge_def Let_def
  by (auto simp add: capacity_kept_def view_ok_def split: if_splits option.splits prod.splits sum.splits
      dest!: expandBuffer_kept dispatchChunks_kept set_bytes_len_imp)

lemma arrivalOverflow_kept: "arrivalOverflow chunk b s = Some (r, s') \<Longrightarrow> view_ok (stashBuffer s) (bufferSize s) \<Longrightarrow> capacity_kept s s'"
  unfolding arrivalOverflow_def Let_def
  by (auto simp add: capacity_kept_def view_ok_def split: if_splits option.splits prod.splits sum.splits
      dest!: expandBuffer_kept dispatchChunks_kept set_bytes_len_imp)
lemma arrivalStash_kept: "arrivalStash chunk b s = Some (r, s') \<Longrightarrow> capacity_kept s s'"
  unfolding arrivalStash_def Let_def
  by (auto simp add: capacity_kept_def view_ok_def split: if_splits option.splits
      dest!: arrivalOverflow_kept arrivalDirect_kept set_bytes_len_imp)
lemma onLoaderChunkArrival_kept: "onLoaderChunkArrival KBps chunk b s = Some (r, s') \<Longrightarrow> capacity_kept s s'"
  unfolding onLoaderChunkArrival_def Let_def
  by (auto simp add: capacity_kept_def split: if_splits option.splits prod.splits sum.splits
      dest!: arrivalStash_kept arrivalDirect_kept arrivalMerge_kept retier_kept)
lemma step_kept: "step L c s = Some (r, s') \<Longrightarrow> capacity_kept s s'"
  by (cases c)
     (auto simp add: step_def open_ctl_def abort_ctl_def onContentLengthKnown_def onURLRedirect_def Let_def
        capacity_kept_same
        dest: pause_kept resume_kept seek_kept onLoaderChunkArrival_kept onLoaderComplete_kept onLoaderError_kept)
lemma run_kept: "run L cs s = Some s' \<Longrightarrow> capacity_kept s s'"
proof (induction cs arbitrary: s)
  case Nil
  then show ?case by (simp add: capacity_kept_refl)
next
  case (Cons c cs)
  from Cons.prems obtain r s1 where st: "step L c s = Some (r, s1)" and rest: "run L cs s1 = Some s'"
    by (auto split: option.splits)
  from step_kept[OF st] Cons.IH[OF rest] show ?case by (rule capacity_kept_trans)
qed

text \<open>
  C2. Over every sequence of calls of one session (arrivals with their tier-driven
  resizes, seeks, pauses, resumes, errors with their reconnects, completions), the
  capacity \<open>_bufferSize\<close> never decreases, and the backing buffer, once as long as the
  capacity says, is never replaced by a shorter one.
\<close>

theorem stash_capacity_never_shrinks:
  "run L cs s = Some s' \<Longrightarrow>
     bufferSize s \<le> bufferSize s' \<and>
     (int (length (stashBuffer s)) = bufferSize s \<longrightarrow> length (stashBuffer s) \<le> length (stashBuffer s'))"
  using run_kept[of L cs s s'] by (auto simp add: capacity_kept_def)

lemmas controller_eval =
  fresh_controller_def listening_def IOController_def createLoader_def flag_loader_def consume_all_def
  step_def open_ctl_def emit_def

lemmas tier_eval =
  retier_def adjustStashSize_def stashSizeKB_of_def expandBuffer_def expandLoop.simps
  tier_defs normalizeLoop.simps

theorem stash_capacity_never_shrinks_witness:
  "\<exists>s'. run flag_loader [Open None, ChunkArrival 5000 [1, 2, 3] 0, Seek 100] fresh_controller = Some s' \<and>
        bufferSize fresh_controller = 3145728 \<and> bufferSize s' = 13631488 \<and>
        length (stashBuffer fresh_controller) \<le> length (stashBuffer s')"
proof -
  have r: "\<exists>s'. run flag_loader [Open None, ChunkArrival 5000 [1, 2, 3] 0, Seek 100] fresh_controller = Some s'
            \<and> bufferSize s' = 13631488"
    by (simp add: controller_eval tier_eval onLoaderChunkArrival_def arrivalStash_def view_ok_def
          set_bytes_def seek_def internalSeek_def flushStashBuffer_def)
  then obtain s' where s': "run flag_loader [Open None, ChunkArrival 5000 [1, 2, 3] 0, Seek 100] fresh_controller = Some s'"
    and b: "bufferSize s' = 13631488" by blast
  have f: "bufferSize fresh_controller = 3145728" "int (length (stashBuffer fresh_controller)) = bufferSize fresh_controller"
    by (simp_all add: controller_eval)
  from stash_capacity_never_shrinks[OF s'] f b s' show ?thesis by simp
qed

subsection \<open>pause and resume\<close>

lemma flushStashBuffer_empty: "stashUsed s = 0 \<Longrightarrow> flushStashBuffer d s = (Inr 0, s)"
  by (simp add: flushStashBuffer_def)

lemma pause_idle: "\<not> isWorking L s \<Longrightarrow> pause L s = (Inr (), s)"
  by (simp add: pause_def)

lemma pause_working:
  "isWorking L s \<Longrightarrow> currentRange s = Some r \<Longrightarrow>
   \<exists>s1. pause L s = (Inr (), s1) \<and> paused s1 \<and> stashUsed s1 = 0 \<and> stashByteStart s1 = 0 \<and>
        loader s1 = loader_abort L (loader s) \<and> events s1 = events s @ [LoaderAbort] \<and>
        resumeFrom s1 = (if stashUsed s \<noteq> 0 then stashByteStart s else range_to r + 1) \<and>
        currentRange s1 = (if stashUsed s \<noteq> 0 then Some (r\<lparr>range_to := stashByteStart s - 1\<rparr>) else Some r) \<and>
        onSeeked s1 = onSeeked s \<and> sink s1 = sink s"
  by (simp add: pause_def emit_def Let_def)

lemma resume_paused:
  "paused s \<Longrightarrow> stashUsed s = 0 \<Longrightarrow>
   \<exists>s2. resume L s = (Inr (), s2) \<and> \<not> paused s2 \<and> stashUsed s2 = 0 \<and>
        currentRange s2 = Some \<lparr>range_from = resumeFrom s, range_to = -1\<rparr> \<and>
        loader s2 = loader_open L (new_loader L) (resumeFrom s) (-1) \<and>
        sink s2 = sink s \<and>
        events s2 = events s
           @ (if loader_isWorking L (loader s) then [LoaderAbort] else [])
           @ [LoaderDestroy, LoaderOpen (resumeFrom s) (-1)]
           @ (if onSeeked s then [Seeked] else [])"
  by (simp add: resume_def internalSeek_def flushStashBuffer_empty emit_def createLoader_def Let_def)

lemmas session_eval =
  trace_of_def controller_eval retier_def onLoaderChunkArrival_def arrivalStash_def arrivalDirect_def
  view_ok_def set_bytes_def slice_to_def flushStashBuffer_def dispatchChunks_def
  onLoaderError_def internalSeek_def isWorking_def pause_def resume_def Let_def

text \<open>
  C5 fails on the code, at two kinds of sessions. A session opened at offset 1000 and paused
  before anything was handed on: the end of the current range is still its open-end mark
  \<open>-1\<close>, the resume offset is one past it, and \<open>resume()\<close> opens the transport at
  offset 0. And a session opened at offset 5000 with a stash of 8 bytes: a chunk of ten
  bytes passes the empty stash and is consumed whole, which leaves the logical start of the
  stash at 5000; the three bytes that arrive at 5010 are stashed under that start; \<open>pause()\<close>
  and \<open>resume()\<close> then open the transport at 5000, not at 5010 where the buffered bytes
  begin.
\<close>

theorem pause_resumes_behind_the_stream:
  "trace_of flag_loader [Open (Some 1000), Pause, Resume] fresh_controller
     = Some [LoaderOpen 1000 (-1), LoaderAbort, LoaderDestroy, LoaderOpen 0 (-1), Seeked] \<and>
   map_option (\<lambda>s. (stash_bytes s, stashByteStart s))
     (run flag_loader [Open (Some 5000), ChunkArrival 0 ten_bytes 5000, ChunkArrival 0 three_bytes 5010]
        tiny_stash_controller)
     = Some (three_bytes, 5000) \<and>
   trace_of flag_loader
     [Open (Some 5000), ChunkArrival 0 ten_bytes 5000, ChunkArrival 0 three_bytes 5010, Pause, Resume]
     tiny_stash_controller
     = Some [LoaderOpen 5000 (-1), Dispatch ten_bytes 5000,
             LoaderAbort, LoaderDestroy, LoaderOpen 5000 (-1), Seeked]"
  by (simp add: session_eval stash_bytes_def tiny_stash_controller_def ten_bytes_def three_bytes_def)

theorem pause_resumes_behind_the_stream_witness:
  "\<exists>es. trace_of flag_loader [Open (Some 1000), Pause, Resume] fresh_controller = Some es \<and>
        filter is_open es = [LoaderOpen 1000 (-1), LoaderOpen 0 (-1)]"
  using pause_resumes_behind_the_stream by simp

lemma holding_5k:
  "\<exists>s. run flag_loader [Open None, ChunkArrival 0 (replicate 400000 7) 0] sparing_controller = Some s \<and>
       loader s \<and> \<not> paused s \<and> stashUsed s = 5120 \<and> stashByteStart s = 394880 \<and>
       currentRange s = Some \<lparr>range_from = 0, range_to = 399999\<rparr> \<and> onSeeked s \<and>
       events s = [LoaderOpen 0 (-1), Dispatch (replicate 400000 7) 0] \<and>
       \<not> isLive s \<and> \<not> isEarlyEofReconnecting s \<and> totalLength s = Some 1000000 \<and>
       onDataArrival s = Some (consume_but 5120) \<and> onError s \<and>
       bufferSize s = 3145728 \<and> length (stashBuffer s) = 3145728 \<and>
       stash_bytes s = replicate 5120 7"
  by (simp add: sparing_controller_def listening_def IOController_def createLoader_def flag_loader_def
        consume_but_def step_def open_ctl_def emit_def retier_def onLoaderChunkArrival_def
        arrivalStash_def arrivalDirect_def dispatchChunks_def keepRemainder_def view_ok_def set_bytes_def
        stash_bytes_def slice_to_def)

text \<open>
  C10. \<open>pause()\<close> of a working controller sets the used length and the logical start of
  the stash to zero and calls nothing but the transport's \<open>abort()\<close>: the consumer is not
  called and keeps its state. When the stash held bytes, the resume offset is their
  logical start and the current range is cut back to end just before it, so that the
  following \<open>resume()\<close>, which dispatches nothing either, requests them again.
\<close>

theorem pause_drops_stash_without_dispatch:
  "isWorking L s \<and> currentRange s = Some r \<longrightarrow>
     (\<exists>s1 s2. pause L s = (Inr (), s1) \<and> stashUsed s1 = 0 \<and> stashByteStart s1 = 0 \<and>
        events s1 = events s @ [LoaderAbort] \<and> sink s1 = sink s \<and>
        (stashUsed s \<noteq> 0 \<longrightarrow>
           resumeFrom s1 = stashByteStart s \<and>
           currentRange s1 = Some (r\<lparr>range_to := stashByteStart s - 1\<rparr>)) \<and>
        resume L s1 = (Inr (), s2) \<and> sink s2 = sink s \<and>
        (\<forall>e \<in> set (drop (length (events s)) (events s2)). \<forall>d b. e \<noteq> Dispatch d b) \<and>
        LoaderOpen (resumeFrom s1) (-1) \<in> set (drop (length (events s)) (events s2)))"
proof
  assume a: "isWorking L s \<and> currentRange s = Some r"
  from pause_working[of L s r] a obtain s1 where
    p: "pause L s = (Inr (), s1)" "paused s1" "stashUsed s1 = 0" "stashByteStart s1 = 0"
       "events s1 = events s @ [LoaderAbort]" "sink s1 = sink s"
       "resumeFrom s1 = (if stashUsed s \<noteq> 0 then stashByteStart s else range_to r + 1)"
       "currentRange s1 = (if stashUsed s \<noteq> 0 then Some (r\<lparr>range_to := stashByteStart s - 1\<rparr>) else Some r)"
    by blast
  from resume_paused[of s1 L] p(2,3) obtain s2 where
    q: "resume L s1 = (Inr (), s2)" "sink s2 = sink s1"
       "events s2 = events s1
           @ (if loader_isWorking L (loader s1) then [LoaderAbort] else [])
           @ [LoaderDestroy, LoaderOpen (resumeFrom s1) (-1)]
           @ (if onSeeked s1 then [Seeked] else [])"
    by blast
  have d: "drop (length (events s)) (events s2) =
             [LoaderAbort] @ (if loader_isWorking L (loader s1) then [LoaderAbort] else [])
           @ [LoaderDestroy, LoaderOpen (resumeFrom s1) (-1)]
           @ (if onSeeked s1 then [Seeked] else [])"
    using q(3) p(5) by simp
  have n: "\<forall>e \<in> set (drop (length (events s)) (events s2)). \<forall>d b. e \<noteq> Dispatch d b"
    unfolding d by auto
  have o: "LoaderOpen (resumeFrom s1) (-1) \<in> set (drop (length (events s)) (events s2))"
    unfolding d by simp
  have c: "stashUsed s \<noteq> 0 \<longrightarrow>
           resumeFrom s1 = stashByteStart s \<and>
           currentRange s1 = Some (r\<lparr>range_to := stashByteStart s - 1\<rparr>)"
    using p(7,8) by simp
  show "\<exists>s1 s2. pause L s = (Inr (), s1) \<and> stashUsed s1 = 0 \<and> stashByteStart s1 = 0 \<and>
        events s1 = events s @ [LoaderAbort] \<and> sink s1 = sink s \<and>
        (stashUsed s \<noteq> 0 \<longrightarrow>
           resumeFrom s1 = stashByteStart s \<and>
           currentRange s1 = Some (r\<lparr>range_to := stashByteStart s - 1\<rparr>)) \<and>
        resume L s1 = (Inr (), s2) \<and> sink s2 = sink s \<and>
        (\<forall>e \<in> set (drop (length (events s)) (events s2)). \<forall>d b. e \<noteq> Dispatch d b) \<and>
        LoaderOpen (resumeFrom s1) (-1) \<in> set (drop (length (events s)) (events s2))"
    using p(1,3,4,5,6) c q(1) q(2) n o by (intro exI[of _ s1] exI[of _ s2]) (simp only: simp_thms)
qed

theorem pause_drops_stash_without_dispatch_witness:
  "\<exists>s s1 s2.
      run flag_loader [Open None, ChunkArrival 0 (replicate 400000 7) 0] sparing_controller = Some s \<and>
      isWorking flag_loader s \<and> stashUsed s = 5120 \<and> stashByteStart s = 394880 \<and>
      pause flag_loader s = (Inr (), s1) \<and> stashUsed s1 = 0 \<and> stashByteStart s1 = 0 \<and>
      events s1 = events s @ [LoaderAbort] \<and> resumeFrom s1 = 394880 \<and>
      currentRange s1 = Some \<lparr>range_from = 0, range_to = 394879\<rparr> \<and>
      resume flag_loader s1 = (Inr (), s2) \<and>
      LoaderOpen 394880 (-1) \<in> set (drop (length (events s)) (events s2))"
proof -
  from holding_5k obtain s where
    s: "run flag_loader [Open None, ChunkArrival 0 (replicate 400000 7) 0] sparing_controller = Some s"
       "loader s" "\<not> paused s" "stashUsed s = 5120" "stashByteStart s = 394880"
       "currentRange s = Some \<lparr>range_from = 0, range_to = 399999\<rparr>"
    by blast
  have w: "isWorking flag_loader s" using s(2,3) by (simp add: isWorking_def flag_loader_def)
  from pause_drops_stash_without_dispatch[of flag_loader s "\<lparr>range_from = 0, range_to = 399999\<rparr>"] w s(6)
  obtain s1 s2 where
    p: "pause flag_loader s = (Inr (), s1)" "stashUsed s1 = 0" "stashByteStart s1 = 0"
       "events s1 = events s @ [LoaderAbort]"
       "stashUsed s \<noteq> 0 \<longrightarrow>
           resumeFrom s1 = stashByteStart s \<and>
           currentRange s1 = Some (\<lparr>range_from = 0, range_to = 399999\<rparr>\<lparr>range_to := stashByteStart s - 1\<rparr>)"
       "resume flag_loader s1 = (Inr (), s2)"
       "LoaderOpen (resumeFrom s1) (-1) \<in> set (drop (length (events s)) (events s2))"
    by blast
  have r: "resumeFrom s1 = 394880" "currentRange s1 = Some \<lparr>range_from = 0, range_to = 394879\<rparr>"
    using p(5) s(4,5) by simp_all
  show ?thesis
    using s(1) w s(4,5) p(1,2,3,4) r p(6) p(7) by auto
qed

subsection \<open>Completion\<close>

lemma dispatchChunks_lastByteStart:
  "dispatchChunks c b s = (r, s') \<Longrightarrow> lastByteStart s' = lastByteStart s"
  by (auto simp add: dispatchChunks_def emit_def Let_def split: option.splits prod.splits)

lemma flushStashBuffer_lastByteStart:
  "flushStashBuffer d s = (r, s') \<Longrightarrow> lastByteStart s' = lastByteStart s"
  by (auto simp add: flushStashBuffer_def Let_def split: if_splits sum.splits prod.splits option.splits
      dest!: dispatchChunks_lastByteStart)

lemma internalSeek_lastByteStart:
  "internalSeek L bytes d s = (r, s') \<Longrightarrow> lastByteStart s' = lastByteStart s"
  by (auto simp add: internalSeek_def Let_def emit_def createLoader_def split: if_splits sum.splits prod.splits
      dest!: flushStashBuffer_lastByteStart)

lemma pause_lastByteStart: "pause L s = (r, s') \<Longrightarrow> lastByteStart s' = lastByteStart s"
  by (auto simp add: pause_def Let_def emit_def split: if_splits option.splits)

lemma resume_lastByteStart: "resume L s = (r, s') \<Longrightarrow> lastByteStart s' = lastByteStart s"
  by (auto simp add: resume_def Let_def split: if_splits dest!: internalSeek_lastByteStart)

lemma seek_lastByteStart: "seek L bytes s = (r, s') \<Longrightarrow> lastByteStart s' = lastByteStart s"
  by (auto simp add: seek_def dest!: internalSeek_lastByteStart)

lemma onLoaderComplete_lastByteStart:
  "onLoaderComplete from to s = (r, s') \<Longrightarrow> lastByteStart s' = lastByteStart s"
  by (auto simp add: onLoaderComplete_def emit_def split: if_splits sum.splits prod.splits
      dest!: flushStashBuffer_lastByteStart)

lemma onLoaderError_lastByteStart:
  "onLoaderError L type code msg s = (r, s') \<Longrightarrow> lastByteStart s' = lastByteStart s"
  by (auto simp add: onLoaderError_def Let_def emit_def split: if_splits sum.splits prod.splits option.splits
      dest!: flushStashBuffer_lastByteStart internalSeek_lastByteStart)

lemma expandBuffer_lastByteStart:
  "expandBuffer e s = Some (r, s') \<Longrightarrow> lastByteStart s' = lastByteStart s"
  by (auto simp add: expandBuffer_def Let_def split: if_splits option.splits)

lemma adjustStashSize_lastByteStart:
  "adjustStashSize n s = Some (r, s') \<Longrightarrow> lastByteStart s' = lastByteStart s"
  unfolding adjustStashSize_def Let_def
  by (auto split: if_splits option.splits prod.splits sum.splits dest!: expandBuffer_lastByteStart)

lemma retier_lastByteStart: "retier KBps s = Some (r, s') \<Longrightarrow> lastByteStart s' = lastByteStart s"
  by (auto simp add: retier_def split: if_splits option.splits dest!: adjustStashSize_lastByteStart)

lemma keepRemainder_lastByteStart:
  "keepRemainder chunk b consumed s = Some (r, s') \<Longrightarrow> lastByteStart s' = lastByteStart s"
  unfolding keepRemainder_def Let_def
  by (auto split: if_splits option.splits prod.splits sum.splits dest!: expandBuffer_lastByteStart)

lemma arrivalDirect_lastByteStart:
  "arrivalDirect chunk b s = Some (r, s') \<Longrightarrow> lastByteStart s' = lastByteStart s"
  by (auto simp add: arrivalDirect_def split: if_splits prod.splits sum.splits
      dest!: keepRemainder_lastByteStart dispatchChunks_lastByteStart)

lemma arrivalMerge_lastByteStart:
  "arrivalMerge chunk b s = Some (r, s') \<Longrightarrow> lastByteStart s' = lastByteStart s"
  unfolding arrivalMerge_def Let_def
  by (auto split: if_splits option.splits prod.splits sum.splits
      dest!: expandBuffer_lastByteStart dispatchChunks_lastByteStart)

lemma arrivalOverflow_lastByteStart:
  "arrivalOverflow chunk b s = Some (r, s') \<Longrightarrow> lastByteStart s' = lastByteStart s"
  unfolding arrivalOverflow_def Let_def
  by (auto split: if_splits option.splits prod.splits sum.splits
      dest!: expandBuffer_lastByteStart dispatchChunks_lastByteStart)

lemma arrivalStash_lastByteStart:
  "arrivalStash chunk b s = Some (r, s') \<Longrightarrow> lastByteStart s' = lastByteStart s"
  unfolding arrivalStash_def Let_def
  by (auto split: if_splits option.splits
      dest!: arrivalOverflow_lastByteStart arrivalDirect_lastByteStart)

lemma onLoaderChunkArrival_lastByteStart:
  "onLoaderChunkArrival KBps chunk b s = Some (r, s') \<Longrightarrow> lastByteStart s' = b"
  unfolding onLoaderChunkArrival_def Let_def
  by (auto simp add: emit_def split: if_splits option.splits prod.splits sum.splits
      dest!: arrivalStash_lastByteStart arrivalDirect_lastByteStart arrivalMerge_lastByteStart
             retier_lastByteStart)

lemma step_lastByteStart:
  "step L c s = Some (r, s') \<Longrightarrow>
     lastByteStart s' = (case c of ChunkArrival KBps chunk b \<Rightarrow> b | _ \<Rightarrow> lastByteStart s)"
  by (cases c)
     (auto simp add: step_def open_ctl_def abort_ctl_def onContentLengthKnown_def onURLRedirect_def
        emit_def Let_def
        dest: pause_lastByteStart resume_lastByteStart seek_lastByteStart
              onLoaderChunkArrival_lastByteStart onLoaderComplete_lastByteStart
              onLoaderError_lastByteStart)

lemma run_lastByteStart:
  "run L cs s = Some s' \<Longrightarrow>
     lastByteStart s' = (if arrival_starts cs = [] then lastByteStart s else last (arrival_starts cs))"
proof (induction cs arbitrary: s)
  case Nil
  then show ?case by simp
next
  case (Cons c cs)
  from Cons.prems obtain r s1 where st: "step L c s = Some (r, s1)" and rest: "run L cs s1 = Some s'"
    by (auto split: option.splits)
  note ih = Cons.IH[OF rest]
  show ?case
  proof (cases c)
    case (ChunkArrival KBps chunk b)
    with step_lastByteStart[OF st] have "lastByteStart s1 = b" by simp
    then show ?thesis using ih ChunkArrival by simp
  qed (use step_lastByteStart[OF st] ih in auto)
qed

lemma flushStashBuffer_drop:
  "0 < stashUsed s \<longrightarrow> currentRange s \<noteq> None \<and> onDataArrival s \<noteq> None \<Longrightarrow> 0 \<le> stashUsed s \<Longrightarrow>
   \<exists>n s'. flushStashBuffer True s = (Inr n, s') \<and> stashUsed s' = 0 \<and>
        lastByteStart s' = lastByteStart s \<and> onComplete s' = onComplete s \<and> onError s' = onError s \<and>
        events s' = events s @
          (if 0 < stashUsed s
           then [Dispatch (slice_to (stashBuffer s) (stashUsed s)) (stashByteStart s)] else [])"
  by (auto simp add: flushStashBuffer_def dispatchChunks_def emit_def Let_def split: prod.splits)

lemma onLoaderComplete_effect:
  "0 < stashUsed s \<longrightarrow> currentRange s \<noteq> None \<and> onDataArrival s \<noteq> None \<Longrightarrow> 0 \<le> stashUsed s \<Longrightarrow>
   \<exists>s'. onLoaderComplete from to s = (Inr (), s') \<and> stashUsed s' = 0 \<and>
        events s' = events s
          @ (if 0 < stashUsed s
             then [Dispatch (slice_to (stashBuffer s) (stashUsed s)) (stashByteStart s)] else [])
          @ (if 0 \<le> lastByteStart s then (if onComplete s then [Completed] else [])
             else (if onError s then [ErrorRaised CONNECTING_TIMEOUT 500 noSignal] else []))"
proof -
  assume a: "0 < stashUsed s \<longrightarrow> currentRange s \<noteq> None \<and> onDataArrival s \<noteq> None"
    and b: "0 \<le> stashUsed s"
  from flushStashBuffer_drop[OF a b] obtain n s1 where
    f: "flushStashBuffer True s = (Inr n, s1)" "stashUsed s1 = 0"
       "lastByteStart s1 = lastByteStart s" "onComplete s1 = onComplete s" "onError s1 = onError s"
       "events s1 = events s @
          (if 0 < stashUsed s
           then [Dispatch (slice_to (stashBuffer s) (stashUsed s)) (stashByteStart s)] else [])"
    by blast
  show ?thesis
    unfolding onLoaderComplete_def f(1) using f(2-6) by (simp add: emit_def)
qed

text \<open>
  C7, as the claim states it, fails: a session that opens, is notified of the arrival of an
  empty chunk at offset 0 and then completes has received no byte, and the completion
  listener is called, not the error listener. The arrival is recorded by its offset (line 483) before the length of the chunk
  plays any part.
\<close>

theorem empty_arrival_completes_counterexample:
  "bytes_received [Open None, ChunkArrival 0 [] 0] = 0 \<and>
   trace_of flag_loader [Open None, ChunkArrival 0 [] 0, LoaderComplete 0 (-1)] fresh_controller
     = Some [LoaderOpen 0 (-1), Completed]"
  by (simp add: trace_of_def controller_eval retier_def onLoaderChunkArrival_def arrivalStash_def
        view_ok_def set_bytes_def slice_to_def onLoaderComplete_def flushStashBuffer_def)

text \<open>
  C7. A session starts with no arrival recorded (\<open>lastByteStart = -1\<close>, as constructed).
  On the transport's completion the used part of the stash, if any, is dispatched once and its
  used length is set to zero whatever the consumer took; then the completion listener is
  called if the session was notified of at least one data arrival, the latest at an offset
  that is not negative (as the offsets of a stream are), whatever the number of bytes the
  arrivals carried; and otherwise the error listener, with the connecting-timeout kind, code
  500 and the "no signal" message.
\<close>

theorem completion_flushes_then_notifies_by_arrival:
  "lastByteStart s0 = -1 \<and> run L cs s0 = Some s \<and>
   0 \<le> stashUsed s \<and>
   (0 < stashUsed s \<longrightarrow> currentRange s \<noteq> None \<and> onDataArrival s \<noteq> None) \<and>
   onComplete s \<and> onError s \<longrightarrow>
     (\<exists>s'. onLoaderComplete from to s = (Inr (), s') \<and> stashUsed s' = 0 \<and>
        events s' = events s
          @ (if 0 < stashUsed s
             then [Dispatch (slice_to (stashBuffer s) (stashUsed s)) (stashByteStart s)] else [])
          @ [if arrival_starts cs \<noteq> [] \<and> 0 \<le> last (arrival_starts cs) then Completed
             else ErrorRaised CONNECTING_TIMEOUT 500 noSignal])"
proof
  assume a: "lastByteStart s0 = -1 \<and> run L cs s0 = Some s \<and>
   0 \<le> stashUsed s \<and>
   (0 < stashUsed s \<longrightarrow> currentRange s \<noteq> None \<and> onDataArrival s \<noteq> None) \<and>
   onComplete s \<and> onError s"
  then have l: "0 \<le> lastByteStart s \<longleftrightarrow> arrival_starts cs \<noteq> [] \<and> 0 \<le> last (arrival_starts cs)"
    using run_lastByteStart[of L cs s0 s] by simp
  from a have "0 < stashUsed s \<longrightarrow> currentRange s \<noteq> None \<and> onDataArrival s \<noteq> None"
    and "0 \<le> stashUsed s" by simp_all
  from onLoaderComplete_effect[OF this, of "from" to] obtain s' where
    c: "onLoaderComplete from to s = (Inr (), s')" "stashUsed s' = 0"
       "events s' = events s
          @ (if 0 < stashUsed s
             then [Dispatch (slice_to (stashBuffer s) (stashUsed s)) (stashByteStart s)] else [])
          @ (if 0 \<le> lastByteStart s then (if onComplete s then [Completed] else [])
             else (if onError s then [ErrorRaised CONNECTING_TIMEOUT 500 noSignal] else []))"
    by blast
  have "events s' = events s
          @ (if 0 < stashUsed s
             then [Dispatch (slice_to (stashBuffer s) (stashUsed s)) (stashByteStart s)] else [])
          @ [if arrival_starts cs \<noteq> [] \<and> 0 \<le> last (arrival_starts cs) then Completed
             else ErrorRaised CONNECTING_TIMEOUT 500 noSignal]"
    using c(3) l a by simp
  with c(1-2) show "\<exists>s'. onLoaderComplete from to s = (Inr (), s') \<and> stashUsed s' = 0 \<and>
        events s' = events s
          @ (if 0 < stashUsed s
             then [Dispatch (slice_to (stashBuffer s) (stashUsed s)) (stashByteStart s)] else [])
          @ [if arrival_starts cs \<noteq> [] \<and> 0 \<le> last (arrival_starts cs) then Completed
             else ErrorRaised CONNECTING_TIMEOUT 500 noSignal]"
    by blast
qed

lemma three_bytes_stashed:
  "\<exists>s. run flag_loader [Open None, ChunkArrival 0 [1, 2, 3] 0] fresh_controller = Some s \<and>
       stashUsed s = 3 \<and> stashByteStart s = 0 \<and> slice_to (stashBuffer s) 3 = [1, 2, 3] \<and>
       currentRange s \<noteq> None \<and> onDataArrival s \<noteq> None \<and> onComplete s \<and> onError s \<and>
       events s = [LoaderOpen 0 (-1)]"
  by (simp add: controller_eval retier_def onLoaderChunkArrival_def arrivalStash_def view_ok_def
        set_bytes_def slice_to_def)

lemma empty_arrival_recorded:
  "\<exists>s. run flag_loader [Open None, ChunkArrival 0 [] 0] fresh_controller = Some s \<and>
       stashUsed s = 0 \<and> onComplete s \<and> onError s \<and> events s = [LoaderOpen 0 (-1)]"
  by (simp add: controller_eval retier_def onLoaderChunkArrival_def arrivalStash_def view_ok_def
        set_bytes_def slice_to_def)

lemma nothing_received:
  "\<exists>s. run flag_loader [Open None] fresh_controller = Some s \<and> stashUsed s = 0 \<and>
       onComplete s \<and> onError s \<and> events s = [LoaderOpen 0 (-1)]"
  by (simp add: controller_eval)

theorem completion_flushes_then_notifies_by_arrival_witness:
  "(\<exists>s s'. run flag_loader [Open None, ChunkArrival 0 [1, 2, 3] 0] fresh_controller = Some s \<and>
      stashUsed s = 3 \<and>
      onLoaderComplete 0 2 s = (Inr (), s') \<and> stashUsed s' = 0 \<and>
      events s' = [LoaderOpen 0 (-1), Dispatch [1, 2, 3] 0, Completed]) \<and>
   (\<exists>s s'. run flag_loader [Open None, ChunkArrival 0 [] 0] fresh_controller = Some s \<and>
      onLoaderComplete 0 (-1) s = (Inr (), s') \<and>
      events s' = [LoaderOpen 0 (-1), Completed]) \<and>
   (\<exists>s s'. run flag_loader [Open None] fresh_controller = Some s \<and>
      onLoaderComplete 0 (-1) s = (Inr (), s') \<and>
      events s' = [LoaderOpen 0 (-1), ErrorRaised CONNECTING_TIMEOUT 500 noSignal])"
proof -
  have fresh: "lastByteStart fresh_controller = -1" by (simp add: controller_eval)
  from three_bytes_stashed obtain s where
    s: "run flag_loader [Open None, ChunkArrival 0 [1, 2, 3] 0] fresh_controller = Some s"
       "stashUsed s = 3" "stashByteStart s = 0" "slice_to (stashBuffer s) 3 = [1, 2, 3]"
       "currentRange s \<noteq> None" "onDataArrival s \<noteq> None" "onComplete s" "onError s"
       "events s = [LoaderOpen 0 (-1)]"
    by blast
  from completion_flushes_then_notifies_by_arrival
         [of fresh_controller flag_loader "[Open None, ChunkArrival 0 [1, 2, 3] 0]" s 0 2]
       fresh s
  obtain s' where
    c: "onLoaderComplete 0 2 s = (Inr (), s')" "stashUsed s' = 0"
       "events s' = [LoaderOpen 0 (-1), Dispatch [1, 2, 3] 0, Completed]"
    by auto
  from empty_arrival_recorded obtain u where
    u: "run flag_loader [Open None, ChunkArrival 0 [] 0] fresh_controller = Some u" "stashUsed u = 0"
       "onComplete u" "onError u" "events u = [LoaderOpen 0 (-1)]"
    by blast
  from completion_flushes_then_notifies_by_arrival
         [of fresh_controller flag_loader "[Open None, ChunkArrival 0 [] 0]" u 0 "-1"]
       fresh u
  obtain u' where
    e: "onLoaderComplete 0 (-1) u = (Inr (), u')"
       "events u' = [LoaderOpen 0 (-1), Completed]"
    by auto
  from nothing_received obtain t where
    t: "run flag_loader [Open None] fresh_controller = Some t" "stashUsed t = 0"
       "onComplete t" "onError t" "events t = [LoaderOpen 0 (-1)]"
    by blast
  from completion_flushes_then_notifies_by_arrival
         [of fresh_controller flag_loader "[Open None]" t 0 "-1"]
       fresh t
  obtain t' where
    d: "onLoaderComplete 0 (-1) t = (Inr (), t')"
       "events t' = [LoaderOpen 0 (-1), ErrorRaised CONNECTING_TIMEOUT 500 noSignal]"
    by auto
  from s(1,2) c u(1) e t(1) d show ?thesis by blast
qed

subsection \<open>Errors of the transport\<close>

lemma unconsumed_length: "length (unconsumed c d) \<le> length d"
  by (simp add: unconsumed_def)

lemma unconsumed_Nil [simp]: "unconsumed c [] = []"
  by (simp add: unconsumed_def)

lemma flushStashBuffer_keep:
  assumes "currentRange s = Some r" "onDataArrival s = Some f" "0 < stashUsed s"
    and "stashUsed s \<le> bufferSize s" "bufferSize s = int (length (stashBuffer s))"
    and "f (sink s) (stash_bytes s) (stashByteStart s) = (c, k)"
  shows "flushStashBuffer False s =
           (Inr (if stashUsed s \<le> c then stashUsed s - c else 0),
            s\<lparr>currentRange := Some (r\<lparr>range_to := stashByteStart s + stashUsed s - 1\<rparr>),
              sink := k,
              events := events s @ [Dispatch (stash_bytes s) (stashByteStart s)],
              stashBuffer := compacted c s,
              stashUsed := int (length (unconsumed c (stash_bytes s))),
              stashByteStart := (if stashUsed s \<le> c then 0
                                 else if 0 < c then stashByteStart s + c
                                 else stashByteStart s)\<rparr>)"
proof -
  have len: "int (length (stash_bytes s)) = stashUsed s"
    using assms(3,4,5) by (simp add: stash_bytes_def slice_to_def)
  have sb: "slice_to (stashBuffer s) (stashUsed s) = stash_bytes s"
    by (simp add: stash_bytes_def)
  consider "stashUsed s \<le> c" | "c < stashUsed s" "0 < c" | "c \<le> 0"
    by linarith
  then show ?thesis
  proof cases
    case 1
    then show ?thesis
      using assms len
      by (simp add: flushStashBuffer_def dispatchChunks_def sb emit_def unconsumed_def compacted_def Let_def)
  next
    case 2
    then show ?thesis
      using assms len
      by (simp add: flushStashBuffer_def dispatchChunks_def sb emit_def unconsumed_def compacted_def Let_def
            view_ok_def set_bytes_def)
  next
    case 3
    then show ?thesis
      using assms len
      by (simp add: flushStashBuffer_def dispatchChunks_def sb emit_def unconsumed_def compacted_def Let_def)
  qed
qed

lemma compacted_length:
  "0 \<le> stashUsed s \<Longrightarrow> stashUsed s \<le> int (length (stashBuffer s)) \<Longrightarrow>
     length (compacted c s) = length (stashBuffer s)"
  by (auto simp add: compacted_def stash_bytes_def slice_to_def)

lemma compacted_take:
  "0 \<le> stashUsed s \<Longrightarrow> stashUsed s \<le> int (length (stashBuffer s)) \<Longrightarrow>
     take (length (unconsumed c (stash_bytes s))) (compacted c s) = unconsumed c (stash_bytes s)"
  by (auto simp add: compacted_def unconsumed_def stash_bytes_def slice_to_def)

lemma stash_bytes_empty: "stashUsed s = 0 \<Longrightarrow> stash_bytes s = []"
  by (simp add: stash_bytes_def slice_to_def)

lemma flushStashBuffer_keep_effect:
  assumes "currentRange s = Some r" "onDataArrival s = Some f" "0 \<le> stashUsed s"
    and "stashUsed s \<le> bufferSize s" "bufferSize s = int (length (stashBuffer s))"
    and "f (sink s) (stash_bytes s) (stashByteStart s) = (c, k)"
  shows "\<exists>n s'. flushStashBuffer False s = (Inr n, s') \<and>
           stash_bytes s' = unconsumed c (stash_bytes s) \<and>
           stashUsed s' = int (length (unconsumed c (stash_bytes s))) \<and>
           (stash_bytes s' \<noteq> [] \<longrightarrow>
              stashByteStart s' + stashUsed s' = stashByteStart s + stashUsed s \<and>
              stashByteStart s' = (if 0 < c then stashByteStart s + c else stashByteStart s)) \<and>
           events s' = events s @
             (if 0 < stashUsed s then [Dispatch (stash_bytes s) (stashByteStart s)] else []) \<and>
           sink s' = (if 0 < stashUsed s then k else sink s) \<and>
           currentRange s' =
             Some (if 0 < stashUsed s then r\<lparr>range_to := stashByteStart s + stashUsed s - 1\<rparr> else r) \<and>
           bufferSize s' = bufferSize s \<and> length (stashBuffer s') = length (stashBuffer s) \<and>
           onDataArrival s' = onDataArrival s \<and> isLive s' = isLive s \<and>
           totalLength s' = totalLength s \<and>
           isEarlyEofReconnecting s' = isEarlyEofReconnecting s \<and>
           onError s' = onError s \<and> onSeeked s' = onSeeked s \<and> loader s' = loader s"
proof (cases "0 < stashUsed s")
  case False
  with assms(3) have z: "stashUsed s = 0" by simp
  show ?thesis
    using z assms(1) by (simp add: flushStashBuffer_empty stash_bytes_empty)
next
  case True
  have len: "int (length (stash_bytes s)) = stashUsed s"
    using True assms(4,5) by (simp add: stash_bytes_def slice_to_def)
  have u: "stashUsed s \<le> int (length (stashBuffer s))" using assms(4,5) by simp
  note k = flushStashBuffer_keep[OF assms(1,2) True assms(4,5,6)]
  have t: "slice_to (compacted c s) (int (length (unconsumed c (stash_bytes s)))) =
             unconsumed c (stash_bytes s)"
    using compacted_take[OF assms(3) u, of c] by (simp add: slice_to_def)
  have e: "unconsumed c (stash_bytes s) \<noteq> [] \<longrightarrow>
             \<not> stashUsed s \<le> c \<and>
             int (length (unconsumed c (stash_bytes s))) = (if 0 < c then stashUsed s - c else stashUsed s)"
    using len by (auto simp add: unconsumed_def)
  show ?thesis
    unfolding k using True t e compacted_length[OF assms(3) u, of c]
    by (auto simp add: stash_bytes_def)
qed

lemma internalSeek_keep_effect:
  assumes "currentRange s = Some r" "onDataArrival s = Some f" "0 \<le> stashUsed s"
    and "stashUsed s \<le> bufferSize s" "bufferSize s = int (length (stashBuffer s))"
    and "f (sink s) (stash_bytes s) (stashByteStart s) = (c, k)"
  shows "\<exists>s'. internalSeek L bytes False s = (Inr (), s') \<and>
           stash_bytes s' = unconsumed c (stash_bytes s) \<and>
           (stash_bytes s' \<noteq> [] \<longrightarrow>
              stashByteStart s' + stashUsed s' = stashByteStart s + stashUsed s) \<and>
           currentRange s' = Some \<lparr>range_from = bytes, range_to = -1\<rparr> \<and>
           isEarlyEofReconnecting s' = isEarlyEofReconnecting s \<and>
           events s' = events s
             @ (if loader_isWorking L (loader s) then [LoaderAbort] else [])
             @ (if 0 < stashUsed s then [Dispatch (stash_bytes s) (stashByteStart s)] else [])
             @ [LoaderDestroy, LoaderOpen bytes (-1)]
             @ (if onSeeked s then [Seeked] else [])"
proof -
  define s1 where "s1 = (if loader_isWorking L (loader s)
                then emit LoaderAbort (s\<lparr>loader := loader_abort L (loader s)\<rparr>) else s)"
  have s1: "currentRange s1 = Some r" "onDataArrival s1 = Some f" "0 \<le> stashUsed s1"
    "stashUsed s1 \<le> bufferSize s1" "bufferSize s1 = int (length (stashBuffer s1))"
    "f (sink s1) (stash_bytes s1) (stashByteStart s1) = (c, k)"
    "stash_bytes s1 = stash_bytes s" "stashUsed s1 = stashUsed s" "stashByteStart s1 = stashByteStart s"
    "events s1 = events s @ (if loader_isWorking L (loader s) then [LoaderAbort] else [])"
    "isEarlyEofReconnecting s1 = isEarlyEofReconnecting s" "onSeeked s1 = onSeeked s"
    using assms by (simp_all add: s1_def emit_def stash_bytes_def)
  from flushStashBuffer_keep_effect[OF s1(1-6)] obtain n s2 where
    f: "flushStashBuffer False s1 = (Inr n, s2)"
       "stash_bytes s2 = unconsumed c (stash_bytes s1)"
       "stash_bytes s2 \<noteq> [] \<longrightarrow> stashByteStart s2 + stashUsed s2 = stashByteStart s1 + stashUsed s1"
       "events s2 = events s1 @
             (if 0 < stashUsed s1 then [Dispatch (stash_bytes s1) (stashByteStart s1)] else [])"
       "isEarlyEofReconnecting s2 = isEarlyEofReconnecting s1" "onSeeked s2 = onSeeked s1"
    by blast
  show ?thesis
    unfolding internalSeek_def Let_def s1_def[symmetric] f(1)
    using f(2-6) s1(7-12)
    by (simp add: emit_def createLoader_def Let_def stash_bytes_def)
qed

lemma onLoaderError_reconnect:
  assumes "\<not> isLive s" "\<not> isEarlyEofReconnecting s" "totalLength s = Some whole" "whole \<noteq> 0"
    and "currentRange s = Some r" "onDataArrival s = Some f"
    and "0 \<le> stashUsed s" "stashUsed s \<le> bufferSize s" "bufferSize s = int (length (stashBuffer s))"
    and "nextFrom = (if 0 < stashUsed s then stashByteStart s + stashUsed s else range_to r + 1)"
    and "nextFrom < whole"
    and "f (sink s) (stash_bytes s) (stashByteStart s) = (c1, k1)"
    and "f k1 (unconsumed c1 (stash_bytes s))
           (if 0 < c1 then stashByteStart s + c1 else stashByteStart s) = (c2, k2)"
  shows "\<exists>s'. onLoaderError L EARLY_EOF code msg s = (Inr (), s') \<and>
           isEarlyEofReconnecting s' \<and>
           filter is_open (drop (length (events s)) (events s')) = [LoaderOpen nextFrom (-1)] \<and>
           filter is_error (drop (length (events s)) (events s')) = [] \<and>
           currentRange s' = Some \<lparr>range_from = nextFrom, range_to = -1\<rparr> \<and>
           stash_bytes s' = unconsumed c2 (unconsumed c1 (stash_bytes s)) \<and>
           (stash_bytes s' \<noteq> [] \<longrightarrow>
              stashByteStart s' + stashUsed s' = stashByteStart s + stashUsed s)"
proof -
  have len: "int (length (stash_bytes s)) = stashUsed s"
    using assms(7,8,9) by (simp add: stash_bytes_def slice_to_def)
  from flushStashBuffer_keep_effect[OF assms(5,6,7,8,9,12)] obtain n s1 where
    f1: "flushStashBuffer False s = (Inr n, s1)"
        "stash_bytes s1 = unconsumed c1 (stash_bytes s)"
        "stashUsed s1 = int (length (unconsumed c1 (stash_bytes s)))"
        "stash_bytes s1 \<noteq> [] \<longrightarrow>
              stashByteStart s1 + stashUsed s1 = stashByteStart s + stashUsed s \<and>
              stashByteStart s1 = (if 0 < c1 then stashByteStart s + c1 else stashByteStart s)"
        "events s1 = events s @
             (if 0 < stashUsed s then [Dispatch (stash_bytes s) (stashByteStart s)] else [])"
        "sink s1 = (if 0 < stashUsed s then k1 else sink s)"
        "currentRange s1 =
             Some (if 0 < stashUsed s then r\<lparr>range_to := stashByteStart s + stashUsed s - 1\<rparr> else r)"
        "bufferSize s1 = bufferSize s" "length (stashBuffer s1) = length (stashBuffer s)"
        "onDataArrival s1 = onDataArrival s" "isLive s1 = isLive s"
        "totalLength s1 = totalLength s"
        "isEarlyEofReconnecting s1 = isEarlyEofReconnecting s"
        "onSeeked s1 = onSeeked s" "loader s1 = loader s"
    by blast
  define r1 where "r1 = (if 0 < stashUsed s then r\<lparr>range_to := stashByteStart s + stashUsed s - 1\<rparr> else r)"
  have nf: "range_to r1 + 1 = nextFrom" using assms(10) by (simp add: r1_def)
  define s2 where "s2 = s1\<lparr>isEarlyEofReconnecting := True\<rparr>"
  have step1: "onLoaderError L EARLY_EOF code msg s = internalSeek L nextFrom False s2"
    unfolding onLoaderError_def f1(1)
    using f1(7,11,12,13) assms(1,2,3,4,11) nf
    by (simp add: Let_def r1_def[symmetric] s2_def)
  obtain c k where ck: "f (sink s2) (stash_bytes s2) (stashByteStart s2) = (c, k)"
    by (cases "f (sink s2) (stash_bytes s2) (stashByteStart s2)") blast
  have ul: "length (unconsumed c1 (stash_bytes s)) \<le> length (stash_bytes s)"
    by (rule unconsumed_length)
  have s2: "currentRange s2 = Some r1" "onDataArrival s2 = Some f" "0 \<le> stashUsed s2"
    "stashUsed s2 \<le> bufferSize s2" "bufferSize s2 = int (length (stashBuffer s2))"
    using f1(3,7,8,9,10) assms(6,8,9) ul len by (simp_all add: s2_def r1_def)
  have s2': "stash_bytes s2 = stash_bytes s1" "stashUsed s2 = stashUsed s1"
    "stashByteStart s2 = stashByteStart s1" "events s2 = events s1" "sink s2 = sink s1"
    "isEarlyEofReconnecting s2" "onSeeked s2 = onSeeked s" "loader s2 = loader s"
    using f1(14,15) by (simp_all add: s2_def stash_bytes_def)
  from internalSeek_keep_effect[OF s2 ck, of L nextFrom] obtain s' where
    f2: "internalSeek L nextFrom False s2 = (Inr (), s')"
        "stash_bytes s' = unconsumed c (stash_bytes s2)"
        "stash_bytes s' \<noteq> [] \<longrightarrow>
              stashByteStart s' + stashUsed s' = stashByteStart s2 + stashUsed s2"
        "currentRange s' = Some \<lparr>range_from = nextFrom, range_to = -1\<rparr>"
        "isEarlyEofReconnecting s' = isEarlyEofReconnecting s2"
        "events s' = events s2
             @ (if loader_isWorking L (loader s2) then [LoaderAbort] else [])
             @ (if 0 < stashUsed s2 then [Dispatch (stash_bytes s2) (stashByteStart s2)] else [])
             @ [LoaderDestroy, LoaderOpen nextFrom (-1)]
             @ (if onSeeked s2 then [Seeked] else [])"
    by blast
  have rest: "unconsumed c (stash_bytes s2) = unconsumed c2 (unconsumed c1 (stash_bytes s))"
  proof (cases "unconsumed c1 (stash_bytes s) = []")
    case True
    then show ?thesis using s2'(1) f1(2) by simp
  next
    case False
    then have ne: "stash_bytes s1 \<noteq> []" using f1(2) by simp
    from False have "stash_bytes s \<noteq> []" by auto
    then have pos: "0 < stashUsed s" using len by (cases "stash_bytes s") auto
    from ne f1(4) have st: "stashByteStart s1 = (if 0 < c1 then stashByteStart s + c1 else stashByteStart s)"
      by simp
    from ck have "f k1 (unconsumed c1 (stash_bytes s))
           (if 0 < c1 then stashByteStart s + c1 else stashByteStart s) = (c, k)"
      using s2'(1,3,5) f1(2,6) pos st by simp
    with assms(13) have "c = c2" by simp
    then show ?thesis using s2'(1) f1(2) by simp
  qed
  have keep: "stash_bytes s' \<noteq> [] \<longrightarrow>
              stashByteStart s' + stashUsed s' = stashByteStart s + stashUsed s"
  proof
    assume a: "stash_bytes s' \<noteq> []"
    then have "stash_bytes s2 \<noteq> []" using f2(2) by auto
    then have "stash_bytes s1 \<noteq> []" using s2'(1) by simp
    with f1(4) a f2(3) s2'(2,3) show "stashByteStart s' + stashUsed s' = stashByteStart s + stashUsed s"
      by simp
  qed
  have ev: "drop (length (events s)) (events s') =
              (if 0 < stashUsed s then [Dispatch (stash_bytes s) (stashByteStart s)] else [])
            @ (if loader_isWorking L (loader s2) then [LoaderAbort] else [])
            @ (if 0 < stashUsed s2 then [Dispatch (stash_bytes s2) (stashByteStart s2)] else [])
            @ [LoaderDestroy, LoaderOpen nextFrom (-1)]
            @ (if onSeeked s2 then [Seeked] else [])"
    unfolding f2(6) s2'(4) f1(5) by simp
  have op: "filter is_open (drop (length (events s)) (events s')) = [LoaderOpen nextFrom (-1)]"
    unfolding ev by simp
  have er: "filter is_error (drop (length (events s)) (events s')) = []"
    unfolding ev by simp
  show ?thesis
    using step1 f2(1,4,5) s2'(6) op er f2(2) rest keep by simp
qed

lemma onLoaderError_escalates:
  assumes "isEarlyEofReconnecting s"
    and "currentRange s = Some r" "onDataArrival s = Some f"
    and "0 \<le> stashUsed s" "stashUsed s \<le> bufferSize s" "bufferSize s = int (length (stashBuffer s))"
    and "f (sink s) (stash_bytes s) (stashByteStart s) = (c1, k1)"
  shows "\<exists>s'. onLoaderError L type code msg s =
              (if onError s then Inr () else Inl RuntimeException, s') \<and>
           \<not> isEarlyEofReconnecting s' \<and>
           filter is_open (drop (length (events s)) (events s')) = [] \<and>
           filter is_error (drop (length (events s)) (events s')) =
             (if onError s then [ErrorRaised UNRECOVERABLE_EARLY_EOF code msg] else []) \<and>
           stash_bytes s' = unconsumed c1 (stash_bytes s)"
proof -
  from flushStashBuffer_keep_effect[OF assms(2-7)] obtain n s1 where
    f1: "flushStashBuffer False s = (Inr n, s1)"
        "stash_bytes s1 = unconsumed c1 (stash_bytes s)"
        "events s1 = events s @
             (if 0 < stashUsed s then [Dispatch (stash_bytes s) (stashByteStart s)] else [])"
        "isEarlyEofReconnecting s1 = isEarlyEofReconnecting s"
        "onError s1 = onError s"
    by blast
  show ?thesis
    unfolding onLoaderError_def f1(1)
    using f1(2-5) assms(1)
    by (simp add: Let_def emit_def stash_bytes_def)
qed

text \<open>
  C3 fails on the code, at two kinds of sessions; what the two lemmas above say of the
  reconnection (one transport opened, the flag set, no error surfaced, the consumer's
  leftovers kept in the stash, the second error surfaced as unrecoverable) holds, for the
  offset the code computes. A session opened at offset 1000 whose transport reports an early
  EOF before anything was handed on: the end of the current range is still its open-end mark
  \<open>-1\<close>, and the transport is opened again at offset 0, not at 1000. And a session opened
  at offset 5000 with a stash of 8 bytes: a chunk of ten bytes passes the empty stash and is
  consumed whole, which leaves the logical start of the stash at 5000; the three bytes that
  arrive at 5010 are stashed under that start, the flush of the error handler hands them on
  as being at 5000, and the transport is opened again at 5003, though the bytes up to 5012
  have been received and handed on.
\<close>

theorem early_eof_reopens_behind_the_stream:
  "trace_of flag_loader [Open (Some 1000), LoaderError EARLY_EOF 0 ''eof''] fresh_controller
     = Some [LoaderOpen 1000 (-1), LoaderAbort, LoaderDestroy, LoaderOpen 0 (-1), Seeked] \<and>
   trace_of flag_loader
     [Open (Some 5000), ChunkArrival 0 ten_bytes 5000, ChunkArrival 0 three_bytes 5010,
      LoaderError EARLY_EOF 0 ''eof''] tiny_stash_controller
     = Some [LoaderOpen 5000 (-1), Dispatch ten_bytes 5000, Dispatch three_bytes 5000,
             LoaderAbort, LoaderDestroy, LoaderOpen 5003 (-1), Seeked]"
  by (simp add: session_eval tiny_stash_controller_def ten_bytes_def three_bytes_def)

theorem early_eof_reopens_behind_the_stream_witness:
  "\<exists>es. trace_of flag_loader [Open (Some 1000), LoaderError EARLY_EOF 0 ''eof''] fresh_controller = Some es \<and>
        filter is_open es = [LoaderOpen 1000 (-1), LoaderOpen 0 (-1)] \<and>
        filter is_error es = []"
  using early_eof_reopens_behind_the_stream by simp

subsection \<open>Arrivals with the stash enabled\<close>

lemma retier_same_tier:
  "KBps = 0 \<or> normalizeSpeed KBps = Some (speedNormalized s) \<Longrightarrow> retier KBps s = Some (Inr (), s)"
  by (auto simp add: retier_def)

lemma arrival_appends:
  assumes "onDataArrival s = Some f" "\<not> paused s" "\<not> isEarlyEofReconnecting s" "enableStash s"
    and "KBps = 0 \<or> normalizeSpeed KBps = Some (speedNormalized s)"
    and "0 \<le> stashUsed s" "stashUsed s + int (length chunk) \<le> stashSize s"
    and "stashSize s \<le> int (length (stashBuffer s))"
  shows "onLoaderChunkArrival KBps chunk byteStart s =
           Some (Inr (),
             s\<lparr>lastByteStart := byteStart,
               stashByteStart := (if stashUsed s = 0 \<and> stashByteStart s = 0 then byteStart
                                  else stashByteStart s),
               stashBuffer := take (nat (stashUsed s)) (stashBuffer s) @ chunk
                              @ drop (nat (stashUsed s) + length chunk) (stashBuffer s),
               stashUsed := stashUsed s + int (length chunk)\<rparr>)"
proof -
  have r: "retier KBps (s\<lparr>lastByteStart := byteStart\<rparr>) = Some (Inr (), s\<lparr>lastByteStart := byteStart\<rparr>)"
    using assms(5) by (intro retier_same_tier) simp
  show ?thesis
    unfolding onLoaderChunkArrival_def Let_def
    using assms(1-4,6-8)
    by (simp add: r arrivalStash_def view_ok_def set_bytes_def Let_def)
qed

lemma arrival_overflows:
  assumes "onDataArrival s = Some f" "\<not> paused s" "\<not> isEarlyEofReconnecting s" "enableStash s"
    and "KBps = 0 \<or> normalizeSpeed KBps = Some (speedNormalized s)"
    and "0 < stashUsed s" "stashSize s < stashUsed s + int (length chunk)"
    and "stashUsed s \<le> bufferSize s" "int (length chunk) \<le> bufferSize s"
    and "bufferSize s = int (length (stashBuffer s))"
    and "currentRange s = Some r"
    and "fst (f (sink s) (stash_bytes s) (stashByteStart s)) = stashUsed s"
  shows "onLoaderChunkArrival KBps chunk byteStart s =
           Some (Inr (),
             s\<lparr>lastByteStart := byteStart,
               currentRange := Some (r\<lparr>range_to := stashByteStart s + stashUsed s - 1\<rparr>),
               sink := snd (f (sink s) (stash_bytes s) (stashByteStart s)),
               events := events s @ [Dispatch (stash_bytes s) (stashByteStart s)],
               stashBuffer := chunk @ drop (length chunk) (stashBuffer s),
               stashUsed := int (length chunk),
               stashByteStart := stashByteStart s + stashUsed s\<rparr>)"
proof -
  have r: "retier KBps (s\<lparr>lastByteStart := byteStart\<rparr>) = Some (Inr (), s\<lparr>lastByteStart := byteStart\<rparr>)"
    using assms(5) by (intro retier_same_tier) simp
  have len: "int (length (stash_bytes s)) = stashUsed s"
    using assms(6,8,10) by (simp add: stash_bytes_def slice_to_def)
  obtain c k where ck: "f (sink s) (stash_bytes s) (stashByteStart s) = (c, k)"
    by (cases "f (sink s) (stash_bytes s) (stashByteStart s)") blast
  with assms(12) have c: "c = stashUsed s" by simp
  have sb: "slice_to (stashBuffer s) (stashUsed s) = stash_bytes s"
    by (simp add: stash_bytes_def)
  have ov: "arrivalOverflow chunk byteStart (s\<lparr>lastByteStart := byteStart\<rparr>) =
           Some (Inr (),
             s\<lparr>lastByteStart := byteStart,
               currentRange := Some (r\<lparr>range_to := stashByteStart s + stashUsed s - 1\<rparr>),
               sink := k,
               events := events s @ [Dispatch (stash_bytes s) (stashByteStart s)],
               stashBuffer := chunk @ drop (length chunk) (stashBuffer s),
               stashUsed := int (length chunk),
               stashByteStart := stashByteStart s + stashUsed s\<rparr>)"
    unfolding arrivalOverflow_def Let_def
    using assms(1,6,8,9,10,11) len ck c
    by (simp add: dispatchChunks_def sb emit_def set_bytes_def Let_def)
  show ?thesis
    unfolding onLoaderChunkArrival_def Let_def
    using assms(1-4,6,7,8,10) ck
    by (simp add: r arrivalStash_def view_ok_def ov)
qed

lemma run_one:
  "step L c s = Some (r, s1) \<Longrightarrow> run L (c # cs) s = run L cs s1"
  by simp

lemma three_chunks_40K:
  assumes "onDataArrival s = Some f" "\<not> paused s" "\<not> isEarlyEofReconnecting s" "enableStash s"
    and "currentRange s = Some r" "stashUsed s = 0" "stashByteStart s = 0" "stashSize s = 65536"
    and "bufferSize s = int (length (stashBuffer s))" "65536 \<le> bufferSize s"
    and "K1 = 0 \<or> normalizeSpeed K1 = Some (speedNormalized s)"
    and "K2 = 0 \<or> normalizeSpeed K2 = Some (speedNormalized s)"
    and "K3 = 0 \<or> normalizeSpeed K3 = Some (speedNormalized s)"
    and "\<forall>k d b. fst (f k d b) = int (length d)"
    and "length c1 = 40960" "length c2 = 40960" "length c3 = 40960"
  shows "\<exists>s1 s2 s3.
           run L [ChunkArrival K1 c1 0] s = Some s1 \<and> events s1 = events s \<and>
           run L [ChunkArrival K1 c1 0, ChunkArrival K2 c2 40960] s = Some s2 \<and>
           events s2 = events s @ [Dispatch c1 0] \<and>
           run L [ChunkArrival K1 c1 0, ChunkArrival K2 c2 40960, ChunkArrival K3 c3 81920] s = Some s3 \<and>
           events s3 = events s @ [Dispatch c1 0, Dispatch c2 40960] \<and>
           stash_bytes s3 = c3 \<and> stashUsed s3 = 40960 \<and> stashByteStart s3 = 81920"
proof -
  define s1 where "s1 =
             s\<lparr>lastByteStart := 0,
               stashByteStart := (if stashUsed s = 0 \<and> stashByteStart s = 0 then 0
                                  else stashByteStart s),
               stashBuffer := take (nat (stashUsed s)) (stashBuffer s) @ c1
                              @ drop (nat (stashUsed s) + length c1) (stashBuffer s),
               stashUsed := stashUsed s + int (length c1)\<rparr>"
  have a1: "onLoaderChunkArrival K1 c1 0 s = Some (Inr (), s1)"
    unfolding s1_def
    using assms(1-4,6,8,9,10,11,15) by (intro arrival_appends) simp_all
  have f1: "onDataArrival s1 = Some f" "\<not> paused s1" "\<not> isEarlyEofReconnecting s1" "enableStash s1"
    "speedNormalized s1 = speedNormalized s" "stashUsed s1 = 40960" "stashSize s1 = 65536"
    "bufferSize s1 = bufferSize s" "int (length (stashBuffer s1)) = bufferSize s"
    "currentRange s1 = Some r" "stashByteStart s1 = 0" "events s1 = events s"
    "stash_bytes s1 = c1"
    using assms(1-10,15) by (simp_all add: s1_def stash_bytes_def slice_to_def)
  define s2 where "s2 =
             s1\<lparr>lastByteStart := 40960,
               currentRange := Some (r\<lparr>range_to := stashByteStart s1 + stashUsed s1 - 1\<rparr>),
               sink := snd (f (sink s1) (stash_bytes s1) (stashByteStart s1)),
               events := events s1 @ [Dispatch (stash_bytes s1) (stashByteStart s1)],
               stashBuffer := c2 @ drop (length c2) (stashBuffer s1),
               stashUsed := int (length c2),
               stashByteStart := stashByteStart s1 + stashUsed s1\<rparr>"
  have a2: "onLoaderChunkArrival K2 c2 40960 s1 = Some (Inr (), s2)"
    unfolding s2_def
    using f1 assms(10,12,14,15,16) by (intro arrival_overflows) simp_all
  have f2: "onDataArrival s2 = Some f" "\<not> paused s2" "\<not> isEarlyEofReconnecting s2" "enableStash s2"
    "speedNormalized s2 = speedNormalized s" "stashUsed s2 = 40960" "stashSize s2 = 65536"
    "bufferSize s2 = bufferSize s" "int (length (stashBuffer s2)) = bufferSize s"
    "currentRange s2 = Some (r\<lparr>range_to := 40959\<rparr>)" "stashByteStart s2 = 40960"
    "events s2 = events s @ [Dispatch c1 0]"
    "stash_bytes s2 = c2"
    using f1 assms(10,16) by (simp_all add: s2_def stash_bytes_def slice_to_def)
  define s3 where "s3 =
             s2\<lparr>lastByteStart := 81920,
               currentRange := Some (r\<lparr>range_to := 40959\<rparr>\<lparr>range_to := stashByteStart s2 + stashUsed s2 - 1\<rparr>),
               sink := snd (f (sink s2) (stash_bytes s2) (stashByteStart s2)),
               events := events s2 @ [Dispatch (stash_bytes s2) (stashByteStart s2)],
               stashBuffer := c3 @ drop (length c3) (stashBuffer s2),
               stashUsed := int (length c3),
               stashByteStart := stashByteStart s2 + stashUsed s2\<rparr>"
  have a3: "onLoaderChunkArrival K3 c3 81920 s2 = Some (Inr (), s3)"
    unfolding s3_def
    using f2 assms(10,13,14,16,17) by (intro arrival_overflows) simp_all
  have f3: "events s3 = events s @ [Dispatch c1 0, Dispatch c2 40960]"
    "stash_bytes s3 = c3" "stashUsed s3 = 40960" "stashByteStart s3 = 81920"
    using f2 assms(10,17) by (simp_all add: s3_def stash_bytes_def slice_to_def)
  have r1: "run L [ChunkArrival K1 c1 0] s = Some s1"
    using a1 by (simp add: step_def)
  have r2: "run L [ChunkArrival K1 c1 0, ChunkArrival K2 c2 40960] s = Some s2"
    using a1 a2 by (simp add: step_def)
  have r3: "run L [ChunkArrival K1 c1 0, ChunkArrival K2 c2 40960, ChunkArrival K3 c3 81920] s = Some s3"
    using a1 a2 a3 by (simp add: step_def)
  show ?thesis
    by (intro exI[of _ s1] exI[of _ s2] exI[of _ s3] conjI)
       (fact r1 f1(12) r2 f2(12) r3 f3)+
qed

lemma opened_small_stash:
  "onDataArrival (open_ctl flag_loader None small_stash_controller) = Some consume_all"
  "\<not> paused (open_ctl flag_loader None small_stash_controller)"
  "\<not> isEarlyEofReconnecting (open_ctl flag_loader None small_stash_controller)"
  "enableStash (open_ctl flag_loader None small_stash_controller)"
  "\<not> isLive (open_ctl flag_loader None small_stash_controller)"
  "currentRange (open_ctl flag_loader None small_stash_controller) = Some \<lparr>range_from = 0, range_to = -1\<rparr>"
  "stashUsed (open_ctl flag_loader None small_stash_controller) = 0"
  "stashByteStart (open_ctl flag_loader None small_stash_controller) = 0"
  "stashSize (open_ctl flag_loader None small_stash_controller) = 65536"
  "bufferSize (open_ctl flag_loader None small_stash_controller) =
     int (length (stashBuffer (open_ctl flag_loader None small_stash_controller)))"
  "65536 \<le> bufferSize (open_ctl flag_loader None small_stash_controller)"
  "events (open_ctl flag_loader None small_stash_controller) = [LoaderOpen 0 (-1)]"
  by (simp_all add: small_stash_controller_def listening_def IOController_def createLoader_def
        flag_loader_def open_ctl_def emit_def)

lemma consume_all_full: "\<forall>k d b. fst (consume_all k d b) = int (length d)"
  by (simp add: consume_all_def)

text \<open>
  C1, as the claim states it, fails: with a target of 64 KiB and three chunks of 40 KiB
  the consumer is called twice, with 40 KiB at offset 0 and with 40 KiB at offset 40960,
  and never with 80 KiB.
\<close>

theorem one_dispatch_of_80K_counterexample:
  "dispatch_log flag_loader
     [Open None, ChunkArrival 0 (replicate 40960 1) 0, ChunkArrival 0 (replicate 40960 2) 40960,
      ChunkArrival 0 (replicate 40960 3) 81920] small_stash_controller
   = Some [(40960, 0), (40960, 40960)] \<and>
   dispatch_log flag_loader
     [Open None, ChunkArrival 0 (replicate 40960 1) 0, ChunkArrival 0 (replicate 40960 2) 40960,
      ChunkArrival 0 (replicate 40960 3) 81920] small_stash_controller
   \<noteq> Some [(81920, 0)]"
proof -
  from three_chunks_40K[OF opened_small_stash(1,2,3,4,6,7,8,9,10,11) _ _ _ consume_all_full,
         of 0 0 0 "replicate 40960 1" "replicate 40960 2" "replicate 40960 3" flag_loader]
  obtain s3 where
    r: "run flag_loader [ChunkArrival 0 (replicate 40960 1) 0, ChunkArrival 0 (replicate 40960 2) 40960,
          ChunkArrival 0 (replicate 40960 3) 81920] (open_ctl flag_loader None small_stash_controller) = Some s3"
    and e: "events s3 = events (open_ctl flag_loader None small_stash_controller)
              @ [Dispatch (replicate 40960 1) 0, Dispatch (replicate 40960 2) 40960]"
    by auto
  have "dispatch_log flag_loader
     [Open None, ChunkArrival 0 (replicate 40960 1) 0, ChunkArrival 0 (replicate 40960 2) 40960,
      ChunkArrival 0 (replicate 40960 3) 81920] small_stash_controller
   = Some [(40960, 0), (40960, 40960)]"
    unfolding dispatch_log_def
    by (simp add: run_one[of flag_loader "Open None" small_stash_controller "Inr ()"
                         "open_ctl flag_loader None small_stash_controller"]
          step_def r e opened_small_stash(12) del: run.simps)
  then show ?thesis by simp
qed

text \<open>
  C1, amended. With the stash enabled and empty, a target of 64 KiB, a bounded source, no
  tier change, and a consumer that takes all it is handed: of three chunks of 40 KiB
  arriving at offsets 0, 40960 and 81920, the first is stashed without a dispatch; the
  arrival of the second dispatches the 40 KiB of the first at offset 0 and stashes the
  second; the arrival of the third dispatches the 40 KiB of the second at offset 40960.
  These are the only two dispatches, and the third chunk is then held in the stash, at
  offset 81920.
\<close>

theorem overflow_dispatches_stashed_chunk:
  assumes "onDataArrival s = Some f" "\<not> paused s" "\<not> isEarlyEofReconnecting s" "enableStash s"
    and "\<not> isLive s"
    and "currentRange s = Some r" "stashUsed s = 0" "stashByteStart s = 0" "stashSize s = 65536"
    and "bufferSize s = int (length (stashBuffer s))" "65536 \<le> bufferSize s"
    and "K1 = 0 \<or> normalizeSpeed K1 = Some (speedNormalized s)"
    and "K2 = 0 \<or> normalizeSpeed K2 = Some (speedNormalized s)"
    and "K3 = 0 \<or> normalizeSpeed K3 = Some (speedNormalized s)"
    and "\<forall>k d b. fst (f k d b) = int (length d)"
    and "length c1 = 40960" "length c2 = 40960" "length c3 = 40960"
  shows "\<exists>s1 s2 s3.
           run L [ChunkArrival K1 c1 0] s = Some s1 \<and> events s1 = events s \<and>
           run L [ChunkArrival K1 c1 0, ChunkArrival K2 c2 40960] s = Some s2 \<and>
           events s2 = events s @ [Dispatch c1 0] \<and>
           run L [ChunkArrival K1 c1 0, ChunkArrival K2 c2 40960, ChunkArrival K3 c3 81920] s = Some s3 \<and>
           events s3 = events s @ [Dispatch c1 0, Dispatch c2 40960] \<and>
           stash_bytes s3 = c3 \<and> stashUsed s3 = 40960 \<and> stashByteStart s3 = 81920"
  using assms(1-4,6-18) by (rule three_chunks_40K)

theorem overflow_dispatches_stashed_chunk_witness:
  "\<exists>s1 s2 s3.
     run flag_loader [ChunkArrival 0 (replicate 40960 1) 0]
       (open_ctl flag_loader None small_stash_controller) = Some s1 \<and>
     events s1 = [LoaderOpen 0 (-1)] \<and>
     run flag_loader [ChunkArrival 0 (replicate 40960 1) 0, ChunkArrival 0 (replicate 40960 2) 40960]
       (open_ctl flag_loader None small_stash_controller) = Some s2 \<and>
     events s2 = [LoaderOpen 0 (-1), Dispatch (replicate 40960 1) 0] \<and>
     run flag_loader [ChunkArrival 0 (replicate 40960 1) 0, ChunkArrival 0 (replicate 40960 2) 40960,
                      ChunkArrival 0 (replicate 40960 3) 81920]
       (open_ctl flag_loader None small_stash_controller) = Some s3 \<and>
     events s3 = [LoaderOpen 0 (-1), Dispatch (replicate 40960 1) 0, Dispatch (replicate 40960 2) 40960] \<and>
     stash_bytes s3 = replicate 40960 3 \<and> stashUsed s3 = 40960 \<and> stashByteStart s3 = 81920"
  using overflow_dispatches_stashed_chunk
          [OF opened_small_stash(1-11) _ _ _ consume_all_full,
           of 0 0 0 "replicate 40960 1" "replicate 40960 2" "replicate 40960 3" flag_loader]
  by (simp add: opened_small_stash(12) del: run.simps)

section \<open>The demultiplexer\<close>

subsection \<open>Frames\<close>

lemma callPacketParser_absent:
  "packetParser env = None \<Longrightarrow> \<exists>e. callPacketParser env arrayBuffer d = (Inl e, d)"
  by (simp add: callPacketParser_def split: option.splits)

lemma parseVideoData_short:
  "length arrayBuffer < 5 \<Longrightarrow> parseVideoData env parseSPS arrayBuffer d = (Inl RangeError, d)"
  by (simp add: parseVideoData_def getUint32_def getUint8_def Let_def)

lemma parseChunks_short:
  "callbacks_set d \<Longrightarrow> length chunk < 5 \<Longrightarrow>
     parseChunks env parseSPS chunk byteStart d = (Inl RangeError, d\<lparr>firstParse := False\<rparr>)"
  by (cases "firstParse d") (simp_all add: parseChunks_def callbacks_set_def parseVideoData_short)

text \<open>
  In the module's own environment no call of \<open>parseChunks\<close> returns normally: a chunk
  of fewer than five bytes fails in the reads, any other at the last statement of
  \<open>_parseVideoData\<close>, if not before.
\<close>

lemma parseVideoData_never_returns:
  assumes "packetParser env = None"
  shows "\<exists>e d'. parseVideoData env parseSPS arrayBuffer d = (Inl e, d')"
proof (cases "length arrayBuffer < 5")
  case True
  then show ?thesis by (simp add: parseVideoData_short)
next
  case False
  obtain r d1 where
    p: "(if (arrayBuffer ! 4) AND 0x1f = 7 then parseAVCSPSVideoData parseSPS arrayBuffer 5 d
         else (Inr (), d)) = (r, d1)"
    by (cases "if (arrayBuffer ! 4) AND 0x1f = 7 then parseAVCSPSVideoData parseSPS arrayBuffer 5 d
               else (Inr (), d)") blast
  from callPacketParser_absent[OF assms] obtain e where
    c: "callPacketParser env arrayBuffer d1 = (Inl e, d1)" by blast
  from False have v: "parseVideoData env parseSPS arrayBuffer d =
      (case (r, d1) of (Inl e, d1) \<Rightarrow> (Inl e, d1) | (Inr _, d1) \<Rightarrow> callPacketParser env arrayBuffer d1)"
    by (simp add: parseVideoData_def getUint32_def getUint8_def Let_def p)
  show ?thesis
    unfolding v using c by (cases r) simp_all
qed

lemma parseChunks_never_returns:
  "packetParser env = None \<Longrightarrow> \<exists>e d'. parseChunks env parseSPS chunk byteStart d = (Inl e, d')"
proof -
  assume a: "packetParser env = None"
  from parseVideoData_never_returns[OF a]
  obtain e d' where "parseVideoData env parseSPS chunk (if firstParse d then d\<lparr>firstParse := False\<rparr> else d) = (Inl e, d')"
    by blast
  then show ?thesis by (simp add: parseChunks_def Let_def)
qed

lemma parseChunks_other_frame:
  assumes "callbacks_set d" "packetParser env = None" "\<not> is_sps_frame chunk"
  shows "\<exists>e d'. parseChunks env parseSPS chunk byteStart d = (Inl e, d') \<and>
           emitted d' = emitted d \<and> callbacks_set d'"
proof (cases "length chunk < 5")
  case True
  with assms(1) show ?thesis
    by (simp add: parseChunks_short) (simp add: callbacks_set_def)
next
  case False
  define d1 where "d1 = (if firstParse d then d\<lparr>firstParse := False\<rparr> else d)"
  from callPacketParser_absent[OF assms(2)] obtain e where
    c: "callPacketParser env chunk d1 = (Inl e, d1)" by blast
  from False assms(3) have n: "(chunk ! 4) AND 0x1f \<noteq> 7" by (simp add: is_sps_frame_def)
  from False n have v: "parseVideoData env parseSPS chunk d1 = (Inl e, d1)"
    by (simp add: parseVideoData_def getUint32_def getUint8_def Let_def c)
  have "parseChunks env parseSPS chunk byteStart d = (Inl e, d1)"
    using assms(1) v by (simp add: parseChunks_def callbacks_set_def d1_def[symmetric] Let_def)
  moreover have "emitted d1 = emitted d" "callbacks_set d1"
    using assms(1) by (simp_all add: d1_def callbacks_set_def)
  ultimately show ?thesis by blast
qed

lemma parseAVCSPSVideoData_emits:
  assumes "dmx_onMediaInfo d" "dmx_onTrackMetadata d" "9 \<le> length chunk"
    and "parseSPS (drop 5 chunk) = Inr config"
  shows "\<exists>d' mi meta. parseAVCSPSVideoData parseSPS chunk 5 d = (Inr (), d') \<and>
           emitted d' = emitted d @ [MediaInfoReady mi, TrackMetadataReady ''video'' meta] \<and>
           mi_width mi = Some (width (codec_size config)) \<and>
           mi_height mi = Some (height (codec_size config)) \<and>
           mi_videoCodec mi = codec meta \<and>
           codec meta = Some (''avc1.'' @ hexByte (chunk ! 6) @ hexByte (chunk ! 7) @ hexByte (chunk ! 8)) \<and>
           dmx_onError d' = dmx_onError d \<and> dmx_onMediaInfo d' \<and> dmx_onTrackMetadata d' \<and>
           dmx_onDataAvailable d' = dmx_onDataAvailable d"
  using assms
  by (cases "videoMetadata d")
     (simp_all add: parseAVCSPSVideoData_def Let_def emit_d_def)

lemma parseChunks_sps_frame:
  assumes "callbacks_set d" "packetParser env = None" "is_sps_frame chunk" "9 \<le> length chunk"
    and "parseSPS (drop 5 chunk) = Inr config"
  shows "\<exists>e d' mi meta. parseChunks env parseSPS chunk byteStart d = (Inl e, d') \<and>
           emitted d' = emitted d @ [MediaInfoReady mi, TrackMetadataReady ''video'' meta] \<and>
           mi_width mi = Some (width (codec_size config)) \<and>
           mi_height mi = Some (height (codec_size config)) \<and>
           mi_videoCodec mi = codec meta \<and>
           codec meta = Some (''avc1.'' @ hexByte (chunk ! 6) @ hexByte (chunk ! 7) @ hexByte (chunk ! 8)) \<and>
           callbacks_set d'"
proof -
  define d1 where "d1 = (if firstParse d then d\<lparr>firstParse := False\<rparr> else d)"
  have h: "dmx_onMediaInfo d1" "dmx_onTrackMetadata d1" "dmx_onError d1" "dmx_onDataAvailable d1"
    "emitted d1 = emitted d"
    using assms(1) by (simp_all add: d1_def callbacks_set_def)
  from parseAVCSPSVideoData_emits[where d = d1 and chunk = chunk and parseSPS = parseSPS and config = config,
         OF h(1,2) assms(4,5)] obtain d2 mi meta where
    p: "parseAVCSPSVideoData parseSPS chunk 5 d1 = (Inr (), d2)"
       "emitted d2 = emitted d1 @ [MediaInfoReady mi, TrackMetadataReady ''video'' meta]"
       "mi_width mi = Some (width (codec_size config))"
       "mi_height mi = Some (height (codec_size config))"
       "mi_videoCodec mi = codec meta"
       "codec meta = Some (''avc1.'' @ hexByte (chunk ! 6) @ hexByte (chunk ! 7) @ hexByte (chunk ! 8))"
       "dmx_onError d2 = dmx_onError d1" "dmx_onMediaInfo d2" "dmx_onTrackMetadata d2"
       "dmx_onDataAvailable d2 = dmx_onDataAvailable d1"
    by blast
  from callPacketParser_absent[OF assms(2)] obtain e where
    c: "callPacketParser env chunk d2 = (Inl e, d2)" by blast
  from assms(3,4) have v: "parseVideoData env parseSPS chunk d1 = (Inl e, d2)"
    by (simp add: parseVideoData_def getUint32_def getUint8_def Let_def is_sps_frame_def p(1) c)
  have r: "parseChunks env parseSPS chunk byteStart d = (Inl e, d2)"
    using assms(1) v by (simp add: parseChunks_def callbacks_set_def d1_def[symmetric] Let_def)
  have cb: "callbacks_set d2" using p(7-10) h by (simp add: callbacks_set_def)
  have em: "emitted d2 = emitted d @ [MediaInfoReady mi, TrackMetadataReady ''video'' meta]"
    using p(2) h(5) by simp
  show ?thesis
    by (intro exI[of _ e] exI[of _ d2] exI[of _ mi] exI[of _ meta] conjI)
       (fact r em p(3) p(4) p(5) p(6) cb)+
qed

lemma feed_other_frames:
  "callbacks_set d \<Longrightarrow> packetParser env = None \<Longrightarrow> \<forall>c \<in> set chunks. \<not> is_sps_frame c \<Longrightarrow>
     emitted (feed env parseSPS chunks d) = emitted d \<and> callbacks_set (feed env parseSPS chunks d)"
proof (induction chunks arbitrary: d)
  case Nil
  then show ?case by simp
next
  case (Cons c cs)
  from Cons.prems(3) have n: "\<not> is_sps_frame c" and rest: "\<forall>c \<in> set cs. \<not> is_sps_frame c" by simp_all
  from parseChunks_other_frame[OF Cons.prems(1,2) n, of parseSPS 0] obtain e d' where
    p: "parseChunks env parseSPS c 0 d = (Inl e, d')" "emitted d' = emitted d" "callbacks_set d'"
    by blast
  from Cons.IH[OF p(3) Cons.prems(2) rest] p(1,2) show ?case by simp
qed

lemma feed_append:
  "feed env parseSPS (xs @ ys) d = feed env parseSPS ys (feed env parseSPS xs d)"
  by (induction xs arbitrary: d) simp_all

lemma sps_chunk_decodes:
  "is_sps_frame sps_chunk" "9 \<le> length sps_chunk"
  "toy_sps_parser (drop 5 sps_chunk) =
     Inr \<lparr>codec_size = \<lparr>width = 1920, height = 1080\<rparr>,
          present_size = \<lparr>width = 1920, height = 1080\<rparr>,
          profile_string = ''High'', level_string = ''4.0'', bit_depth = 8,
          chroma_format = 420, sar_ratio = \<lparr>width = 1, height = 1\<rparr>,
          sps_frame_rate = \<lparr>fixed = True, fps = 25, fps_num = 25000, fps_den = 1000\<rparr>,
          ref_frames = 1, chroma_format_string = ''4:2:0''\<rparr>"
  "\<forall>c \<in> set ([slice_chunk] @ [idr_chunk]). \<not> is_sps_frame c"
  "''avc1.'' @ hexByte (sps_chunk ! 6) @ hexByte (sps_chunk ! 7) @ hexByte (sps_chunk ! 8) = ''avc1.640028''"
  by (simp_all add: is_sps_frame_def sps_chunk_def slice_chunk_def idr_chunk_def toy_sps_parser_def
        hexByte_def toString16_def hexDigit_def Let_def)

lemma ready_demuxer_set:
  "callbacks_set ready_demuxer" "emitted ready_demuxer = []" "packetParser module_env = None"
  by (simp_all add: callbacks_set_def ready_demuxer_def H264Demuxer_def module_env_def)


lemma feed_notifications:
  assumes "callbacks_set d" "packetParser env = None"
    and "\<forall>c \<in> set chunks. is_sps_frame c \<longrightarrow> decodable parseSPS c"
  shows "map kind (emitted (feed env parseSPS chunks d)) = map kind (emitted d) @ metadata_pairs chunks
         \<and> callbacks_set (feed env parseSPS chunks d)"
  using assms
proof (induction chunks arbitrary: d)
  case Nil
  then show ?case by (simp add: metadata_pairs_def)
next
  case (Cons c cs)
  from Cons.prems(3) have rest: "\<forall>c \<in> set cs. is_sps_frame c \<longrightarrow> decodable parseSPS c" by simp
  show ?case
  proof (cases "is_sps_frame c")
    case False
    from parseChunks_other_frame[OF Cons.prems(1,2) False, of parseSPS 0] obtain e d' where
      p: "parseChunks env parseSPS c 0 d = (Inl e, d')" "emitted d' = emitted d" "callbacks_set d'"
      by blast
    from Cons.IH[OF p(3) Cons.prems(2) rest] p(1,2) False show ?thesis
      by (simp add: metadata_pairs_def)
  next
    case True
    with Cons.prems(3) have dc: "decodable parseSPS c" by simp
    then obtain config where l: "9 \<le> length c" and cfg: "parseSPS (drop 5 c) = Inr config"
      by (auto simp add: decodable_def split: sum.splits)
    from parseChunks_sps_frame[where d = d and env = env and chunk = c and parseSPS = parseSPS
           and config = config and byteStart = 0, OF Cons.prems(1,2) True l cfg]
    obtain e d' mi meta where
      p: "parseChunks env parseSPS c 0 d = (Inl e, d')"
         "emitted d' = emitted d @ [MediaInfoReady mi, TrackMetadataReady ''video'' meta]"
         "callbacks_set d'"
      by blast
    from Cons.IH[OF p(3) Cons.prems(2) rest] p(1,2) True show ?thesis
      by (simp add: metadata_pairs_def)
  qed
qed

text \<open>
  C4, as the claim states it, fails: nothing stops a second notification. In a session
  of two decodable parameter-set frames and then an IDR frame (type 5), \<open>_onMediaInfo\<close>
  is called twice and \<open>_onTrackMetadata\<close> twice.
\<close>

theorem one_media_info_per_session_counterexample:
  "map kind (emitted (feed module_env toy_sps_parser [sps_chunk, sps_chunk, idr_chunk] ready_demuxer)) =
     [MediaInfoN, TrackMetadataN, MediaInfoN, TrackMetadataN]"
proof -
  have f: "\<forall>c \<in> set [sps_chunk, sps_chunk, idr_chunk]. is_sps_frame c \<longrightarrow> decodable toy_sps_parser c"
    using sps_chunk_decodes(1,2,3,4) by (simp add: decodable_def)
  have m: "metadata_pairs [sps_chunk, sps_chunk, idr_chunk] =
             [MediaInfoN, TrackMetadataN, MediaInfoN, TrackMetadataN]"
    using sps_chunk_decodes(1,4) by (simp add: metadata_pairs_def)
  from feed_notifications[OF ready_demuxer_set(1,3) f] show ?thesis
    by (simp add: ready_demuxer_set(2) m del: feed.simps)
qed

text \<open>
  C4, amended. Whatever the rest of the frame's handling does (the call of line 305, in
  any environment): when \<open>parseChunks\<close>, with the four callbacks set, is handed a type-7
  frame that is decodable (the SPS parser decodes the parameter set and the three codec
  bytes are there), it calls \<open>_onMediaInfo\<close> exactly once and then \<open>_onTrackMetadata\<close>
  exactly once, for this frame as for every such frame before it; and both calls come
  before the rest of the call: before the statement of line 305, and before the
  samples-available notification, which the same call delivers only after that statement
  has returned, and only if the initial metadata has been dispatched, dispatching is on
  and a track holds samples.
\<close>

theorem sps_frame_emits_pair_before_rest_of_call:
  assumes "callbacks_set d" "is_sps_frame chunk" "decodable parseSPS chunk"
  shows "\<exists>mi meta d2.
           emitted d2 = emitted d @ [MediaInfoReady mi, TrackMetadataReady ''video'' meta] \<and>
           mi_videoCodec mi = codec meta \<and>
           codec meta = Some (''avc1.'' @ hexByte (chunk ! 6) @ hexByte (chunk ! 7) @ hexByte (chunk ! 8)) \<and>
           parseChunks env parseSPS chunk byteStart d =
             (case callPacketParser env chunk d2 of
                (Inl e, d3) \<Rightarrow> (Inl e, d3)
              | (Inr u, d3) \<Rightarrow> (Inr (int (length chunk)), samples_if_ready d3))"
proof -
  from assms(3) obtain config where l: "9 \<le> length chunk" and cfg: "parseSPS (drop 5 chunk) = Inr config"
    by (auto simp add: decodable_def split: sum.splits)
  define d1 where "d1 = (if firstParse d then d\<lparr>firstParse := False\<rparr> else d)"
  have h: "dmx_onMediaInfo d1" "dmx_onTrackMetadata d1" "emitted d1 = emitted d"
    using assms(1) by (simp_all add: d1_def callbacks_set_def)
  from parseAVCSPSVideoData_emits[where d = d1 and chunk = chunk and parseSPS = parseSPS and config = config,
         OF h(1,2) l cfg] obtain d2 mi meta where
    p: "parseAVCSPSVideoData parseSPS chunk 5 d1 = (Inr (), d2)"
       "emitted d2 = emitted d1 @ [MediaInfoReady mi, TrackMetadataReady ''video'' meta]"
       "mi_videoCodec mi = codec meta"
       "codec meta = Some (''avc1.'' @ hexByte (chunk ! 6) @ hexByte (chunk ! 7) @ hexByte (chunk ! 8))"
    by blast
  from assms(2) l have v: "parseVideoData env parseSPS chunk d1 = callPacketParser env chunk d2"
    by (simp add: parseVideoData_def getUint32_def getUint8_def Let_def is_sps_frame_def p(1))
  have r: "parseChunks env parseSPS chunk byteStart d =
             (case callPacketParser env chunk d2 of
                (Inl e, d3) \<Rightarrow> (Inl e, d3)
              | (Inr u, d3) \<Rightarrow> (Inr (int (length chunk)), samples_if_ready d3))"
  proof -
    obtain res d3 where c: "callPacketParser env chunk d2 = (res, d3)"
      by (cases "callPacketParser env chunk d2") blast
    show ?thesis
      using assms(1)
      by (cases res)
         (simp_all add: parseChunks_def callbacks_set_def d1_def[symmetric] v c samples_if_ready_def Let_def)
  qed
  have em: "emitted d2 = emitted d @ [MediaInfoReady mi, TrackMetadataReady ''video'' meta]"
    using p(2) h(3) by simp
  show ?thesis
    by (intro exI[of _ mi] exI[of _ meta] exI[of _ d2] conjI) (fact em p(3) p(4) r)+
qed

theorem sps_frame_emits_pair_before_rest_of_call_witness:
  "callbacks_set ready_demuxer \<and> is_sps_frame sps_chunk \<and> decodable toy_sps_parser sps_chunk \<and>
   (\<exists>mi meta d2.
      emitted d2 = [MediaInfoReady mi, TrackMetadataReady ''video'' meta] \<and>
      mi_videoCodec mi = Some ''avc1.640028'' \<and> codec meta = Some ''avc1.640028'' \<and>
      parseChunks module_env toy_sps_parser sps_chunk 0 ready_demuxer = (Inl ReferenceError, d2))"
proof -
  have dc: "decodable toy_sps_parser sps_chunk"
    using sps_chunk_decodes(2,3) by (simp add: decodable_def)
  from sps_frame_emits_pair_before_rest_of_call
         [OF ready_demuxer_set(1) sps_chunk_decodes(1) dc, of module_env 0]
  obtain mi meta d2 where
    p: "emitted d2 = emitted ready_demuxer @ [MediaInfoReady mi, TrackMetadataReady ''video'' meta]"
       "mi_videoCodec mi = codec meta"
       "codec meta = Some (''avc1.'' @ hexByte (sps_chunk ! 6) @ hexByte (sps_chunk ! 7) @ hexByte (sps_chunk ! 8))"
       "parseChunks module_env toy_sps_parser sps_chunk 0 ready_demuxer =
             (case callPacketParser module_env sps_chunk d2 of
                (Inl e, d3) \<Rightarrow> (Inl e, d3)
              | (Inr u, d3) \<Rightarrow> (Inr (int (length sps_chunk)), samples_if_ready d3))"
    by blast
  have em: "emitted d2 = [MediaInfoReady mi, TrackMetadataReady ''video'' meta]"
    using p(1) by (simp add: ready_demuxer_set(2))
  have c2: "codec meta = Some ''avc1.640028''"
    using p(3) sps_chunk_decodes(5) by simp
  have c1: "mi_videoCodec mi = Some ''avc1.640028''"
    using p(2) c2 by simp
  have r: "parseChunks module_env toy_sps_parser sps_chunk 0 ready_demuxer = (Inl ReferenceError, d2)"
    using p(4) by (simp add: callPacketParser_def module_env_def)
  have "\<exists>mi meta d2.
      emitted d2 = [MediaInfoReady mi, TrackMetadataReady ''video'' meta] \<and>
      mi_videoCodec mi = Some ''avc1.640028'' \<and> codec meta = Some ''avc1.640028'' \<and>
      parseChunks module_env toy_sps_parser sps_chunk 0 ready_demuxer = (Inl ReferenceError, d2)"
    by (intro exI[of _ mi] exI[of _ meta] exI[of _ d2] conjI) (fact em c1 c2 r)+
  with ready_demuxer_set(1) sps_chunk_decodes(1) dc show ?thesis by blast
qed

subsection \<open>Units\<close>

lemma scanNalus_returns:
  assumes "0 < lengthSize"
  shows "\<exists>r. scanNalus arrayBuffer le dataOffset dataSize lengthSize dtsValue (offset, us, len, keyframe) = Some r"
proof (induction "dataSize - offset" arbitrary: offset us len keyframe rule: less_induct)
  case less
  show ?case
  proof (cases "offset < dataSize \<and> offset + 4 < dataSize")
    case False
    then show ?thesis
      by (subst scanNalus.simps) (auto simp add: Let_def)
  next
    case True
    then obtain raw where g: "getUint32 arrayBuffer dataOffset dataSize offset (\<not> le) = Some raw"
      by (auto simp add: getUint32_def Let_def)
    define naluSize where "naluSize = (if lengthSize = 3 then raw div 256 else raw)"
    have m: "dataSize - (offset + (lengthSize + naluSize)) < dataSize - offset"
      using True assms by arith
    from less[OF m] obtain r where
      "scanNalus arrayBuffer le dataOffset dataSize lengthSize dtsValue
         (offset + (lengthSize + naluSize),
          us @ [(unat (the (getUint8 arrayBuffer dataOffset dataSize (offset + lengthSize)) AND 0x1F),
                 take (lengthSize + naluSize) (drop (dataOffset + offset) arrayBuffer))],
          len + (lengthSize + naluSize),
          unat (the (getUint8 arrayBuffer dataOffset dataSize (offset + lengthSize)) AND 0x1F) = 5 \<or> keyframe)
       = Some r"
      by blast
    then show ?thesis
      using True g
      by (subst scanNalus.simps) (auto simp add: Let_def naluSize_def split: option.splits)
  qed
qed

text \<open>
  C6 fails on the code by a slip in the length check, \<open>naluSize > dataSize - lengthSize\<close>,
  which leaves \<open>offset\<close> out: after a first unit, a unit whose declared length fits the
  frame as a whole but not what is left of it passes the check. In the frame below the
  second unit declares 16 bytes where 8 remain, and the view of the unit leaves the
  buffer: the function throws a \<open>RangeError\<close> instead of stopping with a warning.
\<close>

theorem overrunning_unit_throws:
  "parseAVCVideoData overrun_frame 0 20 0 0 1 0 ready_demuxer = Some (Inl RangeError, ready_demuxer)"
  by (simp add: parseAVCVideoData_def overrun_frame_def ready_demuxer_def H264Demuxer_def
        scanNalus.simps getUint32_def getUint8_def Let_def)

text \<open>
  When the buffer goes on after the frame, the same unit is taken instead, with bytes from
  beyond the frame: a sample of 28 bytes comes out of a frame of 20.
\<close>

lemma overrunning_unit_is_kept:
  "\<exists>d'. parseAVCVideoData overrun_frame_in_longer_buffer 0 20 0 0 1 0 ready_demuxer = Some (Inr (), d') \<and>
        emitted d' = [] \<and> track_length (videoTrack d') = 28 \<and>
        map (\<lambda>s. map (\<lambda>u. length (snd u)) (units s)) (samples (videoTrack d')) = [8, 20] # []"
  by (simp add: parseAVCVideoData_def overrun_frame_in_longer_buffer_def overrun_frame_def
        ready_demuxer_def H264Demuxer_def scanNalus.simps getUint32_def getUint8_def Let_def)

text \<open>
  What the check does catch: a first unit that declares more than the frame holds after
  its prefix gives the frame up with a warning, and fewer than five bytes left end the
  scan with a warning; neither throws, and nothing is emitted or stored.
\<close>

lemma first_unit_too_long_stops:
  "parseAVCVideoData [0, 0, 0, 17, 0x41, 1, 2, 3, 4, 5] 0 10 0 0 1 0 ready_demuxer =
     Some (Inr (), ready_demuxer\<lparr>emitted := [WarnNaluSizeExceeds 0]\<rparr>)"
  by (simp add: parseAVCVideoData_def ready_demuxer_def H264Demuxer_def
        scanNalus.simps getUint32_def getUint8_def Let_def)

lemma short_tail_stops:
  "parseAVCVideoData [0, 0, 0] 0 3 0 0 1 0 ready_demuxer =
     Some (Inr (), ready_demuxer\<lparr>emitted := [WarnMalformedNalu 0 0 3]\<rparr>)"
  by (simp add: parseAVCVideoData_def ready_demuxer_def H264Demuxer_def
        scanNalus.simps getUint32_def getUint8_def Let_def)

subsection \<open>Consumed bytes\<close>

text \<open>
  C8 fails on the code: \<open>parseChunks\<close> of a chunk of no bytes, with the four callbacks
  set, throws the \<open>RangeError\<close> of \<open>getUint32(0)\<close> on an empty view, in any environment;
  it does not return 0.
\<close>

theorem empty_chunk_throws:
  "parseChunks module_env failing_sps_parser [] 0 ready_demuxer =
     (Inl RangeError, ready_demuxer\<lparr>firstParse := False\<rparr>)"
  using parseChunks_short[of ready_demuxer "[]" module_env failing_sps_parser 0]
  by (simp add: ready_demuxer_set(1))

theorem empty_chunk_throws_witness:
  "callbacks_set ready_demuxer \<and>
   fst (parseChunks module_env failing_sps_parser [] 0 ready_demuxer) = Inl RangeError \<and>
   emitted (snd (parseChunks module_env failing_sps_parser [] 0 ready_demuxer)) = []"
  using empty_chunk_throws by (simp add: ready_demuxer_set)

text \<open>
  The only value \<open>parseChunks\<close> can return is the length of the chunk: its one
  \<open>return\<close> statement.
\<close>

lemma parseChunks_returns_chunk_length:
  "fst (parseChunks env parseSPS chunk byteStart d) = Inr n \<Longrightarrow> n = int (length chunk)"
  by (auto simp add: parseChunks_def Let_def split: if_splits prod.splits sum.splits)



end
